theory Spec2Isabelle
  imports Main
begin

section \<open>Free store, wrapper objects and template parameters\<close>

text \<open>
  A \<open>T*\<close> is \<open>None\<close> (the null pointer) or \<open>Some p\<close> for an address \<open>p\<close>. The free store
  is a list of cells: address \<open>p\<close> is index \<open>p\<close>, a cell holds \<open>Some v\<close> while the object
  is alive and \<open>None\<close> once its storage has been released. \<open>new\<close> appends a cell, so an
  address is never handed out twice.
\<close>

type_synonym addr = nat

text \<open>The location of an \<open>indirect_value\<close> object: what \<open>this\<close> and \<open>&i\<close> are.\<close>

type_synonym wid = nat

datatype exn = bad_indirect_value_access | policy_failure nat

text \<open>
  What a call does: it returns, it throws, or its behaviour is undefined (a null or
  dangling pointer is dereferenced, storage is released that is not alive).
\<close>

datatype 'r outcome = Returns 'r | Throws exn | Undefined

text \<open>
  \<open>class indirect_value\<close>: the two policy bases, reached through \<open>get_c()\<close> and
  \<open>get_d()\<close>, and the member \<open>T* ptr_\<close>.
\<close>

record ('c, 'd) indirect_value =
  get_c :: 'c
  get_d :: 'd
  ptr :: "addr option"

text \<open>
  One invocation of a delete policy: the deleter object used, the pointer passed, and the
  wrapper objects as code running inside the deleter would find them.
\<close>

record ('c, 'd) deleter_call =
  used_deleter :: 'd
  handle :: "addr option"
  seen :: "wid \<Rightarrow> ('c, 'd) indirect_value"

text \<open>
  The state: the free store, the wrapper object at each location (a constructor
  overwrites the object at \<open>this\<close>), and the deleter calls made so far, in order.
\<close>

record ('a, 'c, 'd) world =
  cells :: "'a option list"
  objs :: "wid \<Rightarrow> ('c, 'd) indirect_value"
  del_log :: "('c, 'd) deleter_call list"

text \<open>
  The template parameters \<open>C\<close> and \<open>D\<close> are taken as parameters: the state of a policy
  object is a value of type \<open>'c\<close> or \<open>'d\<close>, and the members of \<open>C\<close> and \<open>D\<close> that may throw
  are functions on that state. \<open>call_copier c v\<close> is the call \<open>c(v)\<close> of the copy policy on
  a pointee \<open>v\<close>: it throws, or it returns a new allocation, as
  \<open>default_copy::operator()\<close> does with \<open>new T(t)\<close>, and \<open>Inr v'\<close> gives the value \<open>v'\<close> of
  the object allocated. Copy construction of a policy throws or yields the state of the
  new policy object. Copy assignment of a policy yields the exception it threw, if any,
  and the state it left the target in. The move constructor and the move assignment of
  a policy are invoked from \<open>noexcept\<close> members only, so they do not throw: the move
  constructor yields the state of the new policy object and the state it leaves the
  source in, and move assignment, given the target and the source, yields the states it
  leaves the target and the source in.
\<close>

record ('a, 'c, 'd) policies =
  default_c :: 'c
  default_d :: 'd
  call_copier :: "'c \<Rightarrow> 'a \<Rightarrow> exn + 'a"
  copy_construct_c :: "'c \<Rightarrow> exn + 'c"
  copy_construct_d :: "'d \<Rightarrow> exn + 'd"
  copy_assign_c :: "'c \<Rightarrow> 'c \<Rightarrow> exn option \<times> 'c"
  copy_assign_d :: "'d \<Rightarrow> 'd \<Rightarrow> exn option \<times> 'd"
  move_construct_c :: "'c \<Rightarrow> 'c \<times> 'c"
  move_construct_d :: "'d \<Rightarrow> 'd \<times> 'd"
  move_assign_c :: "'c \<Rightarrow> 'c \<Rightarrow> 'c \<times> 'c"
  move_assign_d :: "'d \<Rightarrow> 'd \<Rightarrow> 'd \<times> 'd"

definition lookup :: "('a, 'c, 'd) world \<Rightarrow> addr \<Rightarrow> 'a option" where
  "lookup W p = (if p < length (cells W) then cells W ! p else None)"

text \<open>\<open>new T(v)\<close>\<close>

definition new_obj :: "'a \<Rightarrow> ('a, 'c, 'd) world \<Rightarrow> addr \<times> ('a, 'c, 'd) world" where
  "new_obj v W = (length (cells W), W\<lparr>cells := cells W @ [Some v]\<rparr>)"

text \<open>
  \<open>d(p)\<close> for a delete policy \<open>d\<close>: the call is recorded and the storage at \<open>p\<close> is
  released, as \<open>std::default_delete\<close> does with \<open>delete p\<close>. Releasing a null pointer does
  nothing; releasing storage that is not alive is undefined.
\<close>

definition call_deleter ::
  "'d \<Rightarrow> addr option \<Rightarrow> ('a, 'c, 'd) world \<Rightarrow> unit outcome \<times> ('a, 'c, 'd) world" where
  "call_deleter d h W =
     (let W1 = W\<lparr>del_log := del_log W @ [\<lparr>used_deleter = d, handle = h, seen = objs W\<rparr>]\<rparr>
      in case h of
           None \<Rightarrow> (Returns (), W1)
         | Some p \<Rightarrow>
             (case lookup W p of
                None \<Rightarrow> (Undefined, W1)
              | Some v \<Rightarrow> (Returns (), W1\<lparr>cells := (cells W1)[p := None]\<rparr>)))"

text \<open>Sequencing: the rest runs only after a call that returned.\<close>

definition and_then ::
  "'r outcome \<times> 'w \<Rightarrow> ('r \<Rightarrow> 'w \<Rightarrow> 's outcome \<times> 'w) \<Rightarrow> 's outcome \<times> 'w" where
  "and_then m f =
     (case m of
        (Returns r, W) \<Rightarrow> f r W
      | (Throws e, W) \<Rightarrow> (Throws e, W)
      | (Undefined, W) \<Rightarrow> (Undefined, W))"

definition set_ptr :: "wid \<Rightarrow> addr option \<Rightarrow> ('a, 'c, 'd) world \<Rightarrow> ('a, 'c, 'd) world" where
  "set_ptr this h W = W\<lparr>objs := (objs W)(this := (objs W this)\<lparr>ptr := h\<rparr>)\<rparr>"

definition set_c :: "wid \<Rightarrow> 'c \<Rightarrow> ('a, 'c, 'd) world \<Rightarrow> ('a, 'c, 'd) world" where
  "set_c this c W = W\<lparr>objs := (objs W)(this := (objs W this)\<lparr>get_c := c\<rparr>)\<rparr>"

definition set_d :: "wid \<Rightarrow> 'd \<Rightarrow> ('a, 'c, 'd) world \<Rightarrow> ('a, 'c, 'd) world" where
  "set_d this d W = W\<lparr>objs := (objs W)(this := (objs W this)\<lparr>get_d := d\<rparr>)\<rparr>"

section \<open>The core wrapper\<close>

text \<open>\<open>indirect_value() = default\<close>\<close>

definition default_ctor ::
  "('a, 'c, 'd) policies \<Rightarrow> wid \<Rightarrow> ('a, 'c, 'd) world \<Rightarrow> unit outcome \<times> ('a, 'c, 'd) world" where
  "default_ctor P this W =
     (Returns (),
      W\<lparr>objs := (objs W)(this := \<lparr>get_c = default_c P, get_d = default_d P, ptr = None\<rparr>)\<rparr>)"

text \<open>
  \<open>indirect_value(std::in_place_t, Ts&&... ts) : ptr_(new T(std::forward<Ts>(ts)...))\<close>.
  The argument \<open>r\<close> is what \<open>T\<close>'s constructor does on \<open>ts\<close>: it throws, or it builds the
  value \<open>v\<close>. When it throws no wrapper comes to exist.
\<close>

definition in_place_ctor ::
  "('a, 'c, 'd) policies \<Rightarrow> wid \<Rightarrow> exn + 'a \<Rightarrow> ('a, 'c, 'd) world
     \<Rightarrow> unit outcome \<times> ('a, 'c, 'd) world" where
  "in_place_ctor P this r W =
     (case r of
        Inl e \<Rightarrow> (Throws e, W)
      | Inr v \<Rightarrow>
          (let (q, W1) = new_obj v W
           in (Returns (),
               W1\<lparr>objs := (objs W1)(this :=
                    \<lparr>get_c = default_c P, get_d = default_d P, ptr = Some q\<rparr>)\<rparr>)))"

text \<open>
  \<open>explicit indirect_value(U* u, C c = C{}, D d = D{}) noexcept
      : copy_base(std::move(c)), delete_base(std::move(d)), ptr_(u)\<close>.
  The parameters \<open>c\<close> and \<open>d\<close> are the constructor's own; what the moves leave in them
  is gone when it returns.
\<close>

definition adopt_ctor ::
  "('a, 'c, 'd) policies \<Rightarrow> wid \<Rightarrow> addr option \<Rightarrow> 'c \<Rightarrow> 'd \<Rightarrow> ('a, 'c, 'd) world
     \<Rightarrow> unit outcome \<times> ('a, 'c, 'd) world" where
  "adopt_ctor P this u c d W =
     (Returns (),
      W\<lparr>objs := (objs W)(this :=
           \<lparr>get_c = fst (move_construct_c P c), get_d = fst (move_construct_d P d),
            ptr = u\<rparr>)\<rparr>)"

text \<open>\<open>void reset() noexcept\<close>\<close>

definition reset :: "wid \<Rightarrow> ('a, 'c, 'd) world \<Rightarrow> unit outcome \<times> ('a, 'c, 'd) world" where
  "reset this W =
     (case ptr (objs W this) of
        None \<Rightarrow> (Returns (), W)
      | Some p \<Rightarrow>
          (let W1 = set_ptr this None W
           in call_deleter (get_d (objs W1 this)) (Some p) W1))"

text \<open>\<open>T* make_raw_copy() const { return ptr_ ? get_c()(*ptr_) : nullptr; }\<close>\<close>

definition make_raw_copy ::
  "('a, 'c, 'd) policies \<Rightarrow> wid \<Rightarrow> ('a, 'c, 'd) world
     \<Rightarrow> addr option outcome \<times> ('a, 'c, 'd) world" where
  "make_raw_copy P this W =
     (case ptr (objs W this) of
        None \<Rightarrow> (Returns None, W)
      | Some p \<Rightarrow>
          (case lookup W p of
             None \<Rightarrow> (Undefined, W)
           | Some v \<Rightarrow>
               (case call_copier P (get_c (objs W this)) v of
                  Inl e \<Rightarrow> (Throws e, W)
                | Inr v' \<Rightarrow> (let (q, W1) = new_obj v' W in (Returns (Some q), W1)))))"

text \<open>
  \<open>std::unique_ptr<T, std::reference_wrapper<const D>>\<close>: the pointer held, and the
  wrapper whose deleter the guard refers to.
\<close>

record guard =
  g_ptr :: "addr option"
  g_deleter_of :: wid

definition make_guarded_copy ::
  "('a, 'c, 'd) policies \<Rightarrow> wid \<Rightarrow> ('a, 'c, 'd) world \<Rightarrow> guard outcome \<times> ('a, 'c, 'd) world" where
  "make_guarded_copy P this W =
     and_then (make_raw_copy P this W)
       (\<lambda>copiedPtr W1. (Returns \<lparr>g_ptr = copiedPtr, g_deleter_of = this\<rparr>, W1))"

text \<open>\<open>unique_ptr::release\<close> and \<open>unique_ptr::~unique_ptr\<close>\<close>

definition guard_release :: "guard \<Rightarrow> addr option \<times> guard" where
  "guard_release g = (g_ptr g, g\<lparr>g_ptr := None\<rparr>)"

definition guard_dtor :: "guard \<Rightarrow> ('a, 'c, 'd) world \<Rightarrow> unit outcome \<times> ('a, 'c, 'd) world" where
  "guard_dtor g W =
     (case g_ptr g of
        None \<Rightarrow> (Returns (), W)
      | Some q \<Rightarrow> call_deleter (get_d (objs W (g_deleter_of g))) (Some q) W)"

text \<open>An exception \<open>e\<close> leaves the scope of the guard: the guard is destroyed on the way.\<close>

definition unwind ::
  "guard \<Rightarrow> exn \<Rightarrow> ('a, 'c, 'd) world \<Rightarrow> unit outcome \<times> ('a, 'c, 'd) world" where
  "unwind g e W = and_then (guard_dtor g W) (\<lambda>_ W1. (Throws e, W1))"

text \<open>
  \<open>indirect_value(const indirect_value& i)
      : copy_base(i.get_c()), delete_base(i.get_d()), ptr_(i.make_raw_copy())\<close>.
  When an initialiser throws no wrapper comes to exist.
\<close>

definition copy_ctor ::
  "('a, 'c, 'd) policies \<Rightarrow> wid \<Rightarrow> wid \<Rightarrow> ('a, 'c, 'd) world
     \<Rightarrow> unit outcome \<times> ('a, 'c, 'd) world" where
  "copy_ctor P this i W =
     (case copy_construct_c P (get_c (objs W i)) of
        Inl e \<Rightarrow> (Throws e, W)
      | Inr c \<Rightarrow>
          (case copy_construct_d P (get_d (objs W i)) of
             Inl e \<Rightarrow> (Throws e, W)
           | Inr d \<Rightarrow>
               and_then (make_raw_copy P i W)
                 (\<lambda>q W1. (Returns (),
                    W1\<lparr>objs := (objs W1)(this := \<lparr>get_c = c, get_d = d, ptr = q\<rparr>)\<rparr>))))"

text \<open>
  \<open>indirect_value(indirect_value&& i) noexcept
      : copy_base(std::move(i)), delete_base(std::move(i)),
        ptr_(std::exchange(i.ptr_, nullptr))\<close>
\<close>

definition move_ctor ::
  "('a, 'c, 'd) policies \<Rightarrow> wid \<Rightarrow> wid \<Rightarrow> ('a, 'c, 'd) world
     \<Rightarrow> unit outcome \<times> ('a, 'c, 'd) world" where
  "move_ctor P this i W =
     (let (c, c_left) = move_construct_c P (get_c (objs W i));
          W1 = set_c i c_left W;
          (d, d_left) = move_construct_d P (get_d (objs W1 i));
          W2 = set_d i d_left W1;
          old = ptr (objs W2 i);
          W3 = set_ptr i None W2
      in (Returns (), W3\<lparr>objs := (objs W3)(this := \<lparr>get_c = c, get_d = d, ptr = old\<rparr>)\<rparr>))"

text \<open>\<open>indirect_value& operator=(const indirect_value& i)\<close>\<close>

definition copy_assign ::
  "('a, 'c, 'd) policies \<Rightarrow> wid \<Rightarrow> wid \<Rightarrow> ('a, 'c, 'd) world
     \<Rightarrow> unit outcome \<times> ('a, 'c, 'd) world" where
  "copy_assign P this i W =
     and_then (make_guarded_copy P i W) (\<lambda>temp_guard W1.
     and_then (reset this W1) (\<lambda>_ W2.
       (let (ec, c) = copy_assign_c P (get_c (objs W2 this)) (get_c (objs W2 i));
            W3 = set_c this c W2
        in case ec of
             Some e \<Rightarrow> unwind temp_guard e W3
           | None \<Rightarrow>
               (let (ed, d) = copy_assign_d P (get_d (objs W3 this)) (get_d (objs W3 i));
                    W4 = set_d this d W3
                in case ed of
                     Some e \<Rightarrow> unwind temp_guard e W4
                   | None \<Rightarrow>
                       (let (q, released) = guard_release temp_guard;
                            W5 = set_ptr this q W4
                        in guard_dtor released W5)))))"

text \<open>\<open>indirect_value& operator=(indirect_value&& i) noexcept\<close>\<close>

definition move_assign ::
  "('a, 'c, 'd) policies \<Rightarrow> wid \<Rightarrow> wid \<Rightarrow> ('a, 'c, 'd) world
     \<Rightarrow> unit outcome \<times> ('a, 'c, 'd) world" where
  "move_assign P this i W =
     (if this \<noteq> i then
        and_then (reset this W) (\<lambda>_ W1.
          (let (c, c_left) = move_assign_c P (get_c (objs W1 this)) (get_c (objs W1 i));
               W2 = set_c i c_left (set_c this c W1);
               (d, d_left) = move_assign_d P (get_d (objs W2 this)) (get_d (objs W2 i));
               W3 = set_d i d_left (set_d this d W2);
               old = ptr (objs W3 i);
               W4 = set_ptr i None W3
           in (Returns (), set_ptr this old W4)))
      else (Returns (), W))"

text \<open>\<open>~indirect_value() { reset(); }\<close>\<close>

definition dtor :: "wid \<Rightarrow> ('a, 'c, 'd) world \<Rightarrow> unit outcome \<times> ('a, 'c, 'd) world" where
  "dtor this W = reset this W"

text \<open>
  \<open>operator*\<close>: the reference it returns is the address held. Reading through it, and
  writing through it, are undefined unless an object is alive there.
\<close>

definition star :: "('c, 'd) indirect_value \<Rightarrow> addr outcome" where
  "star x = (case ptr x of None \<Rightarrow> Undefined | Some p \<Rightarrow> Returns p)"

definition read_ref :: "('a, 'c, 'd) world \<Rightarrow> addr \<Rightarrow> 'a outcome" where
  "read_ref W p = (case lookup W p of None \<Rightarrow> Undefined | Some v \<Rightarrow> Returns v)"

definition write_ref ::
  "addr \<Rightarrow> 'a \<Rightarrow> ('a, 'c, 'd) world \<Rightarrow> unit outcome \<times> ('a, 'c, 'd) world" where
  "write_ref p v W =
     (case lookup W p of
        None \<Rightarrow> (Undefined, W)
      | Some _ \<Rightarrow> (Returns (), W\<lparr>cells := (cells W)[p := Some v]\<rparr>))"

text \<open>Reading through the reference a call has returned, if it has returned one.\<close>

definition read_through :: "('a, 'c, 'd) world \<Rightarrow> addr outcome \<Rightarrow> 'a outcome" where
  "read_through W r =
     (case r of Returns p \<Rightarrow> read_ref W p | Throws e \<Rightarrow> Throws e | Undefined \<Rightarrow> Undefined)"

text \<open>The value \<open>*x\<close> of a wrapper.\<close>

definition pointee :: "('a, 'c, 'd) world \<Rightarrow> ('c, 'd) indirect_value \<Rightarrow> 'a outcome" where
  "pointee W x = read_through W (star x)"

text \<open>\<open>value()\<close> in its four forms: \<open>&\<close>, \<open>const&\<close>, \<open>&&\<close>, \<open>const&&\<close>.\<close>

definition value_lref :: "('c, 'd) indirect_value \<Rightarrow> addr outcome" where
  "value_lref x = (if ptr x = None then Throws bad_indirect_value_access else star x)"

definition value_const_lref :: "('c, 'd) indirect_value \<Rightarrow> addr outcome" where
  "value_const_lref x = (if ptr x = None then Throws bad_indirect_value_access else star x)"

definition value_rref :: "('c, 'd) indirect_value \<Rightarrow> addr outcome" where
  "value_rref x = (if ptr x = None then Throws bad_indirect_value_access else star x)"

definition value_const_rref :: "('c, 'd) indirect_value \<Rightarrow> addr outcome" where
  "value_const_rref x = (if ptr x = None then Throws bad_indirect_value_access else star x)"

text \<open>\<open>explicit constexpr operator bool() const noexcept\<close> and \<open>has_value\<close>\<close>

definition op_bool :: "('c, 'd) indirect_value \<Rightarrow> bool" where
  "op_bool x = (ptr x \<noteq> None)"

definition has_value :: "('c, 'd) indirect_value \<Rightarrow> bool" where
  "has_value x = (ptr x \<noteq> None)"

section \<open>Relational operators\<close>

text \<open>
  The comparison operators of the pointee type are parameters (\<open>T_eq\<close> for \<open>==\<close>, \<open>T_lt\<close>
  for \<open><\<close>, and so on). \<open>&&\<close> and \<open>||\<close> evaluate their right operand only when the left one
  does not decide the result, so a wrapper is dereferenced only on the paths where the
  source dereferences it.
\<close>

definition andalso :: "bool \<Rightarrow> bool outcome \<Rightarrow> bool outcome" where
  "andalso a b = (if a then b else Returns False)"

definition orelse :: "bool \<Rightarrow> bool outcome \<Rightarrow> bool outcome" where
  "orelse a b = (if a then Returns True else b)"

definition apply2 :: "('x \<Rightarrow> 'y \<Rightarrow> bool) \<Rightarrow> 'x outcome \<Rightarrow> 'y outcome \<Rightarrow> bool outcome" where
  "apply2 f x y =
     (case x of
        Returns a \<Rightarrow>
          (case y of Returns b \<Rightarrow> Returns (f a b) | Throws e \<Rightarrow> Throws e
           | Undefined \<Rightarrow> Undefined)
      | Throws e \<Rightarrow> Throws e
      | Undefined \<Rightarrow> Undefined)"

definition negate :: "bool outcome \<Rightarrow> bool outcome" where
  "negate r = (case r of Returns b \<Rightarrow> Returns (\<not> b) | Throws e \<Rightarrow> Throws e
               | Undefined \<Rightarrow> Undefined)"

subsection \<open>Between two wrappers\<close>

text \<open>\<open>operator==(const indirect_value<T1, C1, D1>& lhs, const indirect_value<T2, C2, D2>& rhs)\<close>\<close>

definition op_eq ::
  "('a \<Rightarrow> 'a \<Rightarrow> bool) \<Rightarrow> ('a, 'c, 'd) world \<Rightarrow> ('c, 'd) indirect_value
     \<Rightarrow> ('c, 'd) indirect_value \<Rightarrow> bool outcome" where
  "op_eq T_eq W lhs rhs =
     (let leftHasValue = op_bool lhs
      in andalso (leftHasValue = op_bool rhs) (orelse (\<not> leftHasValue) (apply2 T_eq (pointee W lhs) (pointee W rhs))))"

text \<open>\<open>operator!=(const indirect_value<T1, C1, D1>& lhs, const indirect_value<T2, C2, D2>& rhs)\<close>\<close>

definition op_ne ::
  "('a \<Rightarrow> 'a \<Rightarrow> bool) \<Rightarrow> ('a, 'c, 'd) world \<Rightarrow> ('c, 'd) indirect_value
     \<Rightarrow> ('c, 'd) indirect_value \<Rightarrow> bool outcome" where
  "op_ne T_ne W lhs rhs =
     (let leftHasValue = op_bool lhs
      in orelse (leftHasValue \<noteq> op_bool rhs) (andalso leftHasValue (apply2 T_ne (pointee W lhs) (pointee W rhs))))"

text \<open>\<open>operator<(const indirect_value<T1, C1, D1>& lhs, const indirect_value<T2, C2, D2>& rhs)\<close>\<close>

definition op_lt ::
  "('a \<Rightarrow> 'a \<Rightarrow> bool) \<Rightarrow> ('a, 'c, 'd) world \<Rightarrow> ('c, 'd) indirect_value
     \<Rightarrow> ('c, 'd) indirect_value \<Rightarrow> bool outcome" where
  "op_lt T_lt W lhs rhs =
     andalso (op_bool rhs) (orelse (\<not> op_bool lhs) (apply2 T_lt (pointee W lhs) (pointee W rhs)))"

text \<open>\<open>operator>(const indirect_value<T1, C1, D1>& lhs, const indirect_value<T2, C2, D2>& rhs)\<close>\<close>

definition op_gt ::
  "('a \<Rightarrow> 'a \<Rightarrow> bool) \<Rightarrow> ('a, 'c, 'd) world \<Rightarrow> ('c, 'd) indirect_value
     \<Rightarrow> ('c, 'd) indirect_value \<Rightarrow> bool outcome" where
  "op_gt T_gt W lhs rhs =
     andalso (op_bool lhs) (orelse (\<not> op_bool rhs) (apply2 T_gt (pointee W lhs) (pointee W rhs)))"

text \<open>\<open>operator<=(const indirect_value<T1, C1, D1>& lhs, const indirect_value<T2, C2, D2>& rhs)\<close>\<close>

definition op_le ::
  "('a \<Rightarrow> 'a \<Rightarrow> bool) \<Rightarrow> ('a, 'c, 'd) world \<Rightarrow> ('c, 'd) indirect_value
     \<Rightarrow> ('c, 'd) indirect_value \<Rightarrow> bool outcome" where
  "op_le T_le W lhs rhs =
     orelse (\<not> op_bool lhs) (andalso (op_bool rhs) (apply2 T_le (pointee W lhs) (pointee W rhs)))"

text \<open>\<open>operator>=(const indirect_value<T1, C1, D1>& lhs, const indirect_value<T2, C2, D2>& rhs)\<close>\<close>

definition op_ge ::
  "('a \<Rightarrow> 'a \<Rightarrow> bool) \<Rightarrow> ('a, 'c, 'd) world \<Rightarrow> ('c, 'd) indirect_value
     \<Rightarrow> ('c, 'd) indirect_value \<Rightarrow> bool outcome" where
  "op_ge T_ge W lhs rhs =
     orelse (\<not> op_bool rhs) (andalso (op_bool lhs) (apply2 T_ge (pointee W lhs) (pointee W rhs)))"

subsection \<open>With \<open>nullptr\<close>\<close>

text \<open>
  Without \<open><=>\<close> the twelve operators are written out. The suffix \<open>_null\<close> is the form
  with \<open>nullptr\<close> on the right, the prefix \<open>null_\<close> the form with \<open>nullptr\<close> on the left.
\<close>

definition eq_null :: "('c, 'd) indirect_value \<Rightarrow> bool" where
  "eq_null lhs = (\<not> op_bool lhs)"

definition null_eq :: "('c, 'd) indirect_value \<Rightarrow> bool" where
  "null_eq rhs = (\<not> op_bool rhs)"

definition ne_null :: "('c, 'd) indirect_value \<Rightarrow> bool" where
  "ne_null lhs = op_bool lhs"

definition null_ne :: "('c, 'd) indirect_value \<Rightarrow> bool" where
  "null_ne rhs = op_bool rhs"

definition lt_null :: "('c, 'd) indirect_value \<Rightarrow> bool" where
  "lt_null lhs = False"

definition null_lt :: "('c, 'd) indirect_value \<Rightarrow> bool" where
  "null_lt rhs = op_bool rhs"

definition gt_null :: "('c, 'd) indirect_value \<Rightarrow> bool" where
  "gt_null lhs = op_bool lhs"

definition null_gt :: "('c, 'd) indirect_value \<Rightarrow> bool" where
  "null_gt rhs = False"

definition le_null :: "('c, 'd) indirect_value \<Rightarrow> bool" where
  "le_null lhs = (\<not> op_bool lhs)"

definition null_le :: "('c, 'd) indirect_value \<Rightarrow> bool" where
  "null_le rhs = True"

definition ge_null :: "('c, 'd) indirect_value \<Rightarrow> bool" where
  "ge_null lhs = True"

definition null_ge :: "('c, 'd) indirect_value \<Rightarrow> bool" where
  "null_ge rhs = (\<not> op_bool rhs)"

text \<open>
  With \<open><=>\<close> only \<open>operator==(lhs, nullptr)\<close> and
  \<open>operator<=>(lhs, nullptr) { return bool(lhs) <=> false; }\<close> are declared, and the
  language rewrites the other comparisons in terms of them.
\<close>

datatype strong_ordering = so_less | so_equal | so_greater

definition bool_three_way :: "bool \<Rightarrow> bool \<Rightarrow> strong_ordering" where
  "bool_three_way a b = (if a = b then so_equal else if b then so_less else so_greater)"

definition three_way_null :: "('c, 'd) indirect_value \<Rightarrow> strong_ordering" where
  "three_way_null lhs = bool_three_way (op_bool lhs) False"

text \<open>\<open>0 <=> c\<close>, the ordering seen from the other side.\<close>

definition reversed :: "strong_ordering \<Rightarrow> strong_ordering" where
  "reversed c = (case c of so_less \<Rightarrow> so_greater | so_equal \<Rightarrow> so_equal | so_greater \<Rightarrow> so_less)"

subsection \<open>With a value of a comparable type\<close>

text \<open>
  The suffix \<open>_raw\<close> is the form \<open>(const indirect_value<T, C, D>& lhs, const U& rhs)\<close>,
  the prefix \<open>raw_\<close> the form \<open>(const T& lhs, const indirect_value<U, C, D>& rhs)\<close>.
\<close>

definition op_eq_raw ::
  "('a \<Rightarrow> 'u \<Rightarrow> bool) \<Rightarrow> ('a, 'c, 'd) world \<Rightarrow> ('c, 'd) indirect_value \<Rightarrow> 'u
     \<Rightarrow> bool outcome" where
  "op_eq_raw T_eq W lhs rhs = andalso (op_bool lhs) (apply2 T_eq (pointee W lhs) (Returns rhs))"

definition raw_op_eq ::
  "('t \<Rightarrow> 'a \<Rightarrow> bool) \<Rightarrow> ('a, 'c, 'd) world \<Rightarrow> 't \<Rightarrow> ('c, 'd) indirect_value
     \<Rightarrow> bool outcome" where
  "raw_op_eq T_eq W lhs rhs = andalso (op_bool rhs) (apply2 T_eq (Returns lhs) (pointee W rhs))"

definition op_ne_raw ::
  "('a \<Rightarrow> 'u \<Rightarrow> bool) \<Rightarrow> ('a, 'c, 'd) world \<Rightarrow> ('c, 'd) indirect_value \<Rightarrow> 'u
     \<Rightarrow> bool outcome" where
  "op_ne_raw T_ne W lhs rhs = orelse (\<not> op_bool lhs) (apply2 T_ne (pointee W lhs) (Returns rhs))"

definition raw_op_ne ::
  "('t \<Rightarrow> 'a \<Rightarrow> bool) \<Rightarrow> ('a, 'c, 'd) world \<Rightarrow> 't \<Rightarrow> ('c, 'd) indirect_value
     \<Rightarrow> bool outcome" where
  "raw_op_ne T_ne W lhs rhs = orelse (\<not> op_bool rhs) (apply2 T_ne (Returns lhs) (pointee W rhs))"

definition op_lt_raw ::
  "('a \<Rightarrow> 'u \<Rightarrow> bool) \<Rightarrow> ('a, 'c, 'd) world \<Rightarrow> ('c, 'd) indirect_value \<Rightarrow> 'u
     \<Rightarrow> bool outcome" where
  "op_lt_raw T_lt W lhs rhs = orelse (\<not> op_bool lhs) (apply2 T_lt (pointee W lhs) (Returns rhs))"

definition raw_op_lt ::
  "('t \<Rightarrow> 'a \<Rightarrow> bool) \<Rightarrow> ('a, 'c, 'd) world \<Rightarrow> 't \<Rightarrow> ('c, 'd) indirect_value
     \<Rightarrow> bool outcome" where
  "raw_op_lt T_lt W lhs rhs = andalso (op_bool rhs) (apply2 T_lt (Returns lhs) (pointee W rhs))"

definition op_gt_raw ::
  "('a \<Rightarrow> 'u \<Rightarrow> bool) \<Rightarrow> ('a, 'c, 'd) world \<Rightarrow> ('c, 'd) indirect_value \<Rightarrow> 'u
     \<Rightarrow> bool outcome" where
  "op_gt_raw T_gt W lhs rhs = andalso (op_bool lhs) (apply2 T_gt (pointee W lhs) (Returns rhs))"

definition raw_op_gt ::
  "('t \<Rightarrow> 'a \<Rightarrow> bool) \<Rightarrow> ('a, 'c, 'd) world \<Rightarrow> 't \<Rightarrow> ('c, 'd) indirect_value
     \<Rightarrow> bool outcome" where
  "raw_op_gt T_gt W lhs rhs = orelse (\<not> op_bool rhs) (apply2 T_gt (Returns lhs) (pointee W rhs))"

definition op_le_raw ::
  "('a \<Rightarrow> 'u \<Rightarrow> bool) \<Rightarrow> ('a, 'c, 'd) world \<Rightarrow> ('c, 'd) indirect_value \<Rightarrow> 'u
     \<Rightarrow> bool outcome" where
  "op_le_raw T_le W lhs rhs = orelse (\<not> op_bool lhs) (apply2 T_le (pointee W lhs) (Returns rhs))"

definition raw_op_le ::
  "('t \<Rightarrow> 'a \<Rightarrow> bool) \<Rightarrow> ('a, 'c, 'd) world \<Rightarrow> 't \<Rightarrow> ('c, 'd) indirect_value
     \<Rightarrow> bool outcome" where
  "raw_op_le T_le W lhs rhs = andalso (op_bool rhs) (apply2 T_le (Returns lhs) (pointee W rhs))"

definition op_ge_raw ::
  "('a \<Rightarrow> 'u \<Rightarrow> bool) \<Rightarrow> ('a, 'c, 'd) world \<Rightarrow> ('c, 'd) indirect_value \<Rightarrow> 'u
     \<Rightarrow> bool outcome" where
  "op_ge_raw T_ge W lhs rhs = andalso (op_bool lhs) (apply2 T_ge (pointee W lhs) (Returns rhs))"

definition raw_op_ge ::
  "('t \<Rightarrow> 'a \<Rightarrow> bool) \<Rightarrow> ('a, 'c, 'd) world \<Rightarrow> 't \<Rightarrow> ('c, 'd) indirect_value
     \<Rightarrow> bool outcome" where
  "raw_op_ge T_ge W lhs rhs = orelse (\<not> op_bool rhs) (apply2 T_ge (Returns lhs) (pointee W rhs))"

section \<open>Ownership and sample instances\<close>

text \<open>
  The invariant of the wrapper on its pointee: a non-null \<open>ptr_\<close> points to an object
  that is alive.
\<close>

definition alive :: "('a, 'c, 'd) world \<Rightarrow> ('c, 'd) indirect_value \<Rightarrow> bool" where
  "alive W x = (case ptr x of None \<Rightarrow> True | Some p \<Rightarrow> lookup W p \<noteq> None)"

text \<open>
  The record of deleter calls is sound when no pointer has been passed twice and every
  pointer passed is a non-null pointer to storage that has been released since.
\<close>

definition released :: "('a, 'c, 'd) world \<Rightarrow> addr \<Rightarrow> bool" where
  "released W p = (p < length (cells W) \<and> cells W ! p = None)"

definition log_ok :: "('a, 'c, 'd) world \<Rightarrow> bool" where
  "log_ok W =
     (distinct (map handle (del_log W)) \<and>
      (\<forall>c \<in> set (del_log W). case handle c of None \<Rightarrow> False | Some p \<Rightarrow> released W p))"

text \<open>
  What an operation on the wrapper \<open>this\<close> that takes \<open>W\<close> to \<open>W'\<close> has done with
  deleters: it has kept the record and added to it; each call it added was passed a
  non-null pointer and found \<open>this\<close> empty; and the record is still sound.
\<close>

definition calls_during ::
  "('a, 'c, 'd) world \<Rightarrow> ('a, 'c, 'd) world \<Rightarrow> ('c, 'd) deleter_call list" where
  "calls_during W W' = drop (length (del_log W)) (del_log W')"

definition releases_properly ::
  "wid \<Rightarrow> ('a, 'c, 'd) world \<Rightarrow> ('a, 'c, 'd) world \<Rightarrow> bool" where
  "releases_properly this W W' =
     (take (length (del_log W)) (del_log W') = del_log W \<and>
      (\<forall>c \<in> set (calls_during W W'). handle c \<noteq> None \<and> ptr (seen c this) = None) \<and>
      log_ok W')"

text \<open>
  \<open>indirect_value<int>\<close> with \<open>default_copy<int>\<close> and \<open>std::default_delete<int>\<close>: the
  policies have no state, \<open>default_copy\<close> is \<open>new T(t)\<close>, and nothing throws.
\<close>

definition int_policies :: "(int, unit, unit) policies" where
  "int_policies =
     \<lparr>default_c = (), default_d = (),
      call_copier = (\<lambda>c v. Inr v),
      copy_construct_c = Inr, copy_construct_d = Inr,
      copy_assign_c = (\<lambda>target source. (None, source)),
      copy_assign_d = (\<lambda>target source. (None, source)),
      move_construct_c = (\<lambda>source. (source, source)),
      move_construct_d = (\<lambda>source. (source, source)),
      move_assign_c = (\<lambda>target source. (source, source)),
      move_assign_d = (\<lambda>target source. (source, source))\<rparr>"

text \<open>
  Wrapper 0 holds 42 at address 0, wrapper 2 holds 7 at address 2, every other wrapper is
  empty, and the storage at address 1 has been released by a deleter call.
\<close>

definition two_ints :: "(int, unit, unit) world" where
  "two_ints =
     \<lparr>cells = [Some 42, None, Some 7],
      objs = (\<lambda>w. \<lparr>get_c = (), get_d = (),
                    ptr = (if w = 0 then Some 0 else if w = 2 then Some 2 else None)\<rparr>),
      del_log = [\<lparr>used_deleter = (), handle = Some 1,
                  seen = (\<lambda>w. \<lparr>get_c = (), get_d = (), ptr = None\<rparr>)\<rparr>]\<rparr>"

text \<open>
  Policies with state, for a pointee type \<open>int\<close>. A copier in state 0 throws when it is
  called. Copy assignment of a copier throws when the source is in state 2, and copy
  assignment of a deleter throws when the source is in state 3; an assignment that throws
  leaves its target as it was. A move hands the state over and leaves the source in
  state 1.
\<close>

definition fussy_policies :: "(int, nat, nat) policies" where
  "fussy_policies =
     \<lparr>default_c = 1, default_d = 1,
      call_copier = (\<lambda>c v. if c = 0 then Inl (policy_failure 0) else Inr v),
      copy_construct_c = Inr, copy_construct_d = Inr,
      copy_assign_c = (\<lambda>target source.
        if source = 2 then (Some (policy_failure 2), target) else (None, source)),
      copy_assign_d = (\<lambda>target source.
        if source = 3 then (Some (policy_failure 3), target) else (None, source)),
      move_construct_c = (\<lambda>source. (source, 1)),
      move_construct_d = (\<lambda>source. (source, 1)),
      move_assign_c = (\<lambda>target source. (source, 1)),
      move_assign_d = (\<lambda>target source. (source, 1))\<rparr>"

text \<open>
  Wrapper 0 holds 42 at address 0. Wrapper 2 holds 7 at address 2 and its copier is in
  state 0. Wrapper 3 holds 9 at address 3 and its copier is in state 2. Wrapper 4 holds 5
  at address 4 and its deleter is in state 3. Every other wrapper is empty.
\<close>

definition fussy_world :: "(int, nat, nat) world" where
  "fussy_world =
     \<lparr>cells = [Some 42, None, Some 7, Some 9, Some 5],
      objs = (\<lambda>w. \<lparr>get_c = (if w = 2 then 0 else if w = 3 then 2 else 1),
                    get_d = (if w = 4 then 3 else 1),
                    ptr = (if w = 0 then Some 0 else if w = 2 then Some 2
                           else if w = 3 then Some 3 else if w = 4 then Some 4 else None)\<rparr>),
      del_log = []\<rparr>"

text \<open>
  Policies that count their moves, as an instrumented policy in a test does: the state
  is the number of times the policy object has been moved, so a move constructor or a
  move assignment leaves the target one above the source.
\<close>

definition counting_policies :: "(int, nat, nat) policies" where
  "counting_policies =
     \<lparr>default_c = 0, default_d = 0,
      call_copier = (\<lambda>c v. Inr v),
      copy_construct_c = Inr, copy_construct_d = Inr,
      copy_assign_c = (\<lambda>target source. (None, source)),
      copy_assign_d = (\<lambda>target source. (None, source)),
      move_construct_c = (\<lambda>source. (Suc source, source)),
      move_construct_d = (\<lambda>source. (Suc source, source)),
      move_assign_c = (\<lambda>target source. (Suc source, source)),
      move_assign_d = (\<lambda>target source. (Suc source, source))\<rparr>"

text \<open>
  A pointee type whose \<open>==\<close> compares the values and whose \<open>!=\<close> always returns false.
\<close>

definition int_eq :: "int \<Rightarrow> int \<Rightarrow> bool" where
  "int_eq a b = (a = b)"

definition never_ne :: "int \<Rightarrow> int \<Rightarrow> bool" where
  "never_ne a b = False"


section \<open>Facts about the model\<close>

lemmas ctor_defs = default_ctor_def in_place_ctor_def new_obj_def
lemmas value_defs = value_lref_def value_const_lref_def value_rref_def value_const_rref_def
lemmas short_circuit_defs = andalso_def orelse_def apply2_def negate_def
lemmas null_defs = eq_null_def null_eq_def ne_null_def null_ne_def lt_null_def null_lt_def
  gt_null_def null_gt_def le_null_def null_le_def ge_null_def null_ge_def
lemmas order_defs = op_lt_def op_gt_def op_le_def op_ge_def
lemmas raw_defs = op_eq_raw_def op_ne_raw_def op_lt_raw_def op_gt_raw_def op_le_raw_def
  op_ge_raw_def raw_op_eq_def raw_op_ne_def raw_op_lt_def raw_op_gt_def raw_op_le_def
  raw_op_ge_def

lemma pointee_empty: "ptr x = None \<Longrightarrow> pointee W x = Undefined"
  by (simp add: pointee_def star_def read_through_def)

lemma pointee_Returns_ptr: "pointee W x = Returns a \<Longrightarrow> ptr x \<noteq> None"
  by (cases "ptr x") (auto simp: pointee_empty)

lemma alive_pointee:
  "alive W x \<Longrightarrow> ptr x \<noteq> None \<Longrightarrow> \<exists>a. pointee W x = Returns a"
  by (auto simp: alive_def pointee_def star_def read_through_def read_ref_def
      split: option.splits)

lemma pointee_two_ints:
  "pointee two_ints (objs two_ints 0) = Returns 42"
  "pointee two_ints (objs two_ints 2) = Returns 7"
  "ptr (objs two_ints 0) = Some 0"
  "ptr (objs two_ints 2) = Some 2"
  "ptr (objs two_ints 3) = None"
  "ptr (objs two_ints 4) = None"
  "alive two_ints (objs two_ints w)"
  "length (cells two_ints) = 3"
  by (simp_all add: two_ints_def alive_def pointee_def star_def read_through_def read_ref_def lookup_def)

lemma pointee_Some:
  "pointee W x = Returns v \<longleftrightarrow> (\<exists>p. ptr x = Some p \<and> lookup W p = Some v)"
  by (auto simp: pointee_def star_def read_through_def read_ref_def split: option.splits)

lemma lookup_SomeD: "lookup W p = Some v \<Longrightarrow> p < length (cells W) \<and> cells W ! p = Some v"
  by (auto simp: lookup_def split: if_splits)

lemma alive_cases:
  assumes "alive W x"
  obtains (empty) "ptr x = None"
  | (holds) p u where "ptr x = Some p" "p < length (cells W)" "cells W ! p = Some u"
  using assms by (cases "ptr x") (auto simp: alive_def dest: lookup_SomeD)

lemma make_raw_copy_empty:
  "ptr (objs W i) = None \<Longrightarrow> make_raw_copy P i W = (Returns None, W)"
  by (simp add: make_raw_copy_def)

lemma make_raw_copy_throws:
  "pointee W (objs W i) = Returns v \<Longrightarrow> call_copier P (get_c (objs W i)) v = Inl e
   \<Longrightarrow> make_raw_copy P i W = (Throws e, W)"
  by (auto simp: make_raw_copy_def pointee_Some)

lemma make_raw_copy_returns:
  "pointee W (objs W i) = Returns v \<Longrightarrow> call_copier P (get_c (objs W i)) v = Inr v'
   \<Longrightarrow> make_raw_copy P i W =
         (Returns (Some (length (cells W))), W\<lparr>cells := cells W @ [Some v']\<rparr>)"
  by (auto simp: make_raw_copy_def pointee_Some new_obj_def)

lemma reset_empty: "ptr (objs W t) = None \<Longrightarrow> reset t W = (Returns (), W)"
  by (simp add: reset_def)

lemma reset_alive:
  "ptr (objs W t) = Some p \<Longrightarrow> lookup W p = Some u \<Longrightarrow>
   reset t W =
     (Returns (),
      W\<lparr>objs := (objs W)(t := (objs W t)\<lparr>ptr := None\<rparr>),
        del_log := del_log W @
          [\<lparr>used_deleter = get_d (objs W t), handle = Some p,
            seen = (objs W)(t := (objs W t)\<lparr>ptr := None\<rparr>)\<rparr>],
        cells := (cells W)[p := None]\<rparr>)"
  by (auto simp: reset_def set_ptr_def call_deleter_def lookup_def Let_def split: if_splits)

lemmas step_defs = copy_assign_def make_guarded_copy_def and_then_def reset_def set_ptr_def
  set_c_def set_d_def call_deleter_def unwind_def guard_dtor_def guard_release_def
  lookup_def new_obj_def

lemma copy_assign_copier_throws:
  "pointee W (objs W s) = Returns v \<Longrightarrow> call_copier P (get_c (objs W s)) v = Inl e
   \<Longrightarrow> copy_assign P t s W = (Throws e, W)"
  by (simp add: copy_assign_def make_guarded_copy_def and_then_def make_raw_copy_throws)

lemma fussy_world_facts:
  "alive fussy_world (objs fussy_world w)"
  "pointee fussy_world (objs fussy_world 0) = Returns 42"
  "pointee fussy_world (objs fussy_world 2) = Returns 7"
  "pointee fussy_world (objs fussy_world 3) = Returns 9"
  "pointee fussy_world (objs fussy_world 4) = Returns 5"
  "get_c (objs fussy_world 0) = 1" "get_d (objs fussy_world 0) = 1"
  "get_c (objs fussy_world 2) = 0" "get_d (objs fussy_world 2) = 1"
  "get_c (objs fussy_world 3) = 2" "get_d (objs fussy_world 3) = 1"
  "get_c (objs fussy_world 4) = 1" "get_d (objs fussy_world 4) = 3"
  "ptr (objs fussy_world 0) = Some 0" "ptr (objs fussy_world 2) = Some 2"
  "ptr (objs fussy_world 3) = Some 3" "ptr (objs fussy_world 4) = Some 4"
  "ptr (objs fussy_world 5) = None"
  "length (cells fussy_world) = 5"
  "del_log fussy_world = []"
  by (simp_all add: fussy_world_def alive_def pointee_def star_def read_through_def
      read_ref_def lookup_def)

lemma fussy_policies_facts:
  "call_copier fussy_policies c v = (if c = 0 then Inl (policy_failure 0) else Inr v)"
  "copy_assign_c fussy_policies target source =
     (if source = 2 then (Some (policy_failure 2), target) else (None, source))"
  "copy_assign_d fussy_policies target' source' =
     (if source' = 3 then (Some (policy_failure 3), target') else (None, source'))"
  "copy_construct_c fussy_policies = Inr" "copy_construct_d fussy_policies = Inr"
  "move_construct_c fussy_policies c' = (c', 1)" "move_construct_d fussy_policies d' = (d', 1)"
  "move_assign_c fussy_policies tc sc = (sc, 1)" "move_assign_d fussy_policies td sd = (sd, 1)"
  by (simp_all add: fussy_policies_def)

lemma int_policies_facts:
  "call_copier int_policies c v = Inr v"
  "copy_assign_c int_policies target source = (None, source)"
  "copy_assign_d int_policies target' source' = (None, source')"
  "copy_construct_c int_policies = Inr" "copy_construct_d int_policies = Inr"
  "move_construct_c int_policies c' = (c', c')" "move_construct_d int_policies d' = (d', d')"
  "move_assign_c int_policies tc sc = (sc, sc)" "move_assign_d int_policies td sd = (sd, sd)"
  by (simp_all add: int_policies_def)

lemma move_assign_never_throws: "fst (move_assign P b a W) \<noteq> Throws e"
  by (auto simp: move_assign_def and_then_def reset_def call_deleter_def Let_def split_beta
      split: option.splits)

lemma counting_policies_facts:
  "move_construct_c counting_policies c = (Suc c, c)"
  "move_construct_d counting_policies d = (Suc d, d)"
  "move_assign_c counting_policies tc sc = (Suc sc, sc)"
  "move_assign_d counting_policies td sd = (Suc sd, sd)"
  by (simp_all add: counting_policies_def)

section \<open>Construction and checked access\<close>

text \<open>
  C3. The default constructor returns, allocates nothing and leaves a wrapper for which
  \<open>operator bool\<close> and \<open>has_value\<close> are false. In-place construction with a constructor
  that builds the value \<open>v\<close> returns and leaves a wrapper for which both are true, and
  reading through the reference that \<open>value()\<close> returns, in each of its four forms,
  yields \<open>v\<close>.
\<close>

theorem construction_default_and_in_place:
  "fst (default_ctor P this W) = Returns () \<and>
   \<not> op_bool (objs (snd (default_ctor P this W)) this) \<and>
   \<not> has_value (objs (snd (default_ctor P this W)) this) \<and>
   cells (snd (default_ctor P this W)) = cells W \<and>
   fst (in_place_ctor P this (Inr v) W) = Returns () \<and>
   op_bool (objs (snd (in_place_ctor P this (Inr v) W)) this) \<and>
   has_value (objs (snd (in_place_ctor P this (Inr v) W)) this) \<and>
   read_through (snd (in_place_ctor P this (Inr v) W))
     (value_lref (objs (snd (in_place_ctor P this (Inr v) W)) this)) = Returns v \<and>
   read_through (snd (in_place_ctor P this (Inr v) W))
     (value_const_lref (objs (snd (in_place_ctor P this (Inr v) W)) this)) = Returns v \<and>
   read_through (snd (in_place_ctor P this (Inr v) W))
     (value_rref (objs (snd (in_place_ctor P this (Inr v) W)) this)) = Returns v \<and>
   read_through (snd (in_place_ctor P this (Inr v) W))
     (value_const_rref (objs (snd (in_place_ctor P this (Inr v) W)) this)) = Returns v"
  by (simp add: ctor_defs value_defs op_bool_def has_value_def star_def read_through_def
      read_ref_def lookup_def)

text \<open>
  C4. Each of the four forms of \<open>value()\<close> throws \<open>bad_indirect_value_access\<close> exactly
  when the wrapper is empty, and otherwise returns the reference to the pointee, that is
  the address held in \<open>ptr_\<close>. The four functions take the wrapper and yield an outcome
  only: they have no access to the state, so the wrapper is not modified.
\<close>

theorem checked_access:
  "(value_lref x = Throws bad_indirect_value_access \<longleftrightarrow> \<not> has_value x) \<and>
   (value_const_lref x = Throws bad_indirect_value_access \<longleftrightarrow> \<not> has_value x) \<and>
   (value_rref x = Throws bad_indirect_value_access \<longleftrightarrow> \<not> has_value x) \<and>
   (value_const_rref x = Throws bad_indirect_value_access \<longleftrightarrow> \<not> has_value x) \<and>
   (\<forall>p. ptr x = Some p \<longrightarrow>
      value_lref x = Returns p \<and> value_const_lref x = Returns p \<and>
      value_rref x = Returns p \<and> value_const_rref x = Returns p)"
  by (auto simp: value_defs has_value_def star_def split: option.splits)

theorem checked_access_witness:
  "value_lref \<lparr>get_c = (), get_d = (), ptr = Some 7\<rparr> = Returns 7 \<and>
   value_const_lref \<lparr>get_c = (), get_d = (), ptr = Some 7\<rparr> = Returns 7 \<and>
   value_rref \<lparr>get_c = (), get_d = (), ptr = Some 7\<rparr> = Returns 7 \<and>
   value_const_rref \<lparr>get_c = (), get_d = (), ptr = Some 7\<rparr> = Returns 7 \<and>
   value_lref \<lparr>get_c = (), get_d = (), ptr = None\<rparr> = Throws bad_indirect_value_access"
  using checked_access [of "\<lparr>get_c = (), get_d = (), ptr = Some 7\<rparr>"]
    checked_access [of "\<lparr>get_c = (), get_d = (), ptr = None\<rparr>"]
  by (simp add: has_value_def)

section \<open>Relational operators\<close>

text \<open>
  C7. \<open>x == y\<close> is true when both wrappers are empty, false when exactly one is, and the
  result of the pointee type's \<open>==\<close> on the two pointees when both hold one: for wrappers
  whose pointees are alive, \<open>x == y\<close> is true if and only if both are empty or both hold
  a value and the pointees compare equal. \<open>x != y\<close> is false, true and the result of the
  pointee type's own \<open>!=\<close> in the same three cases, so it is the negation of \<open>x == y\<close>
  when the pointee type's \<open>!=\<close> is the negation of its \<open>==\<close>. \<open>x == nullptr\<close> and
  \<open>nullptr == x\<close> are true exactly when \<open>x\<close> is empty, and the two \<open>!=\<close> forms are their
  negations.
\<close>

theorem equality_operators:
  "(\<not> has_value x \<and> \<not> has_value y \<longrightarrow>
      op_eq T_eq W x y = Returns True \<and> op_ne T_ne W x y = Returns False) \<and>
   (has_value x \<noteq> has_value y \<longrightarrow>
      op_eq T_eq W x y = Returns False \<and> op_ne T_ne W x y = Returns True) \<and>
   (pointee W x = Returns a \<and> pointee W y = Returns b \<longrightarrow>
      has_value x \<and> has_value y \<and>
      op_eq T_eq W x y = Returns (T_eq a b) \<and> op_ne T_ne W x y = Returns (T_ne a b)) \<and>
   (alive W x \<and> alive W y \<longrightarrow>
      op_eq T_eq W x y =
        Returns ((\<not> has_value x \<and> \<not> has_value y) \<or>
                 (\<exists>u v. pointee W x = Returns u \<and> pointee W y = Returns v \<and> T_eq u v))) \<and>
   (alive W x \<and> alive W y \<and> (\<forall>u v. T_ne u v = (\<not> T_eq u v)) \<longrightarrow>
      op_ne T_ne W x y = negate (op_eq T_eq W x y)) \<and>
   eq_null x = (\<not> has_value x) \<and> null_eq x = (\<not> has_value x) \<and>
   ne_null x = (\<not> eq_null x) \<and> null_ne x = (\<not> null_eq x)"
proof -
  have cases3: "op_eq T_eq W x y = Returns (T_eq u v) \<and> op_ne T_ne W x y = Returns (T_ne u v)"
    if "pointee W x = Returns u" "pointee W y = Returns v" for u v
    using that pointee_Returns_ptr [of W x u] pointee_Returns_ptr [of W y v]
    by (auto simp: op_eq_def op_ne_def short_circuit_defs op_bool_def Let_def)
  have empties: "op_eq T_eq W x y = Returns (ptr x = None \<and> ptr y = None) \<and>
      op_ne T_ne W x y = Returns (\<not> (ptr x = None \<and> ptr y = None))"
    if "ptr x = None \<or> ptr y = None"
    using that by (auto simp: op_eq_def op_ne_def short_circuit_defs op_bool_def Let_def)
  have iff: "op_eq T_eq W x y =
        Returns ((\<not> has_value x \<and> \<not> has_value y) \<or>
                 (\<exists>u v. pointee W x = Returns u \<and> pointee W y = Returns v \<and> T_eq u v))"
    if al: "alive W x" "alive W y"
  proof (cases "ptr x = None \<or> ptr y = None")
    case True
    then show ?thesis using empties by (auto simp: has_value_def pointee_empty)
  next
    case False
    then obtain u v where "pointee W x = Returns u" "pointee W y = Returns v"
      using alive_pointee [OF al(1)] alive_pointee [OF al(2)] by auto
    then show ?thesis using cases3 [of u v] False by (simp add: has_value_def)
  qed
  have neg: "op_ne T_ne W x y = negate (op_eq T_eq W x y)"
    if al: "alive W x" "alive W y" and ng: "\<forall>u v. T_ne u v = (\<not> T_eq u v)"
  proof (cases "ptr x = None \<or> ptr y = None")
    case True
    then show ?thesis using empties by (simp add: negate_def)
  next
    case False
    then obtain u v where "pointee W x = Returns u" "pointee W y = Returns v"
      using alive_pointee [OF al(1)] alive_pointee [OF al(2)] by auto
    then show ?thesis using cases3 [of u v] ng by (simp add: negate_def)
  qed
  show ?thesis
    using cases3 [of a b] empties iff neg pointee_Returns_ptr [of W x a]
      pointee_Returns_ptr [of W y b]
    by (auto simp: has_value_def null_defs op_bool_def)
qed

theorem equality_operators_witness:
  "op_eq (=) two_ints (objs two_ints 3) (objs two_ints 4) = Returns True \<and>
   op_eq (=) two_ints (objs two_ints 3) (objs two_ints 0) = Returns False \<and>
   op_ne (\<noteq>) two_ints (objs two_ints 3) (objs two_ints 0) = Returns True \<and>
   op_eq (=) two_ints (objs two_ints 0) (objs two_ints 2) = Returns False \<and>
   op_eq (=) two_ints (objs two_ints 0) (objs two_ints 0) = Returns True \<and>
   op_ne (\<noteq>) two_ints (objs two_ints 0) (objs two_ints 2) =
     negate (op_eq (=) two_ints (objs two_ints 0) (objs two_ints 2))"
  using equality_operators [of "objs two_ints 3" "objs two_ints 4" "(=)" two_ints "(\<noteq>)" 0 0]
    equality_operators [of "objs two_ints 3" "objs two_ints 0" "(=)" two_ints "(\<noteq>)" 0 0]
    equality_operators [of "objs two_ints 0" "objs two_ints 2" "(=)" two_ints "(\<noteq>)" 42 7]
    equality_operators [of "objs two_ints 0" "objs two_ints 0" "(=)" two_ints "(\<noteq>)" 42 42]
  by (simp add: pointee_two_ints has_value_def negate_def)

text \<open>
  For a pointee type whose \<open>==\<close> compares the values and whose \<open>!=\<close> always returns
  false, two wrappers that hold 42 and 7 are neither equal nor unequal: \<open>x != y\<close> is not
  the negation of \<open>x == y\<close>.
\<close>

theorem equality_operators_counterexample:
  "alive two_ints (objs two_ints 0) \<and>
   op_eq int_eq two_ints (objs two_ints 0) (objs two_ints 2) = Returns False \<and>
   op_ne never_ne two_ints (objs two_ints 0) (objs two_ints 2) = Returns False \<and>
   op_ne never_ne two_ints (objs two_ints 0) (objs two_ints 2) \<noteq>
     negate (op_eq int_eq two_ints (objs two_ints 0) (objs two_ints 2))"
  by (simp add: op_eq_def op_ne_def short_circuit_defs op_bool_def pointee_two_ints
      int_eq_def never_ne_def)

text \<open>
  C8. An empty wrapper is less than every wrapper that holds a value, and no such wrapper
  is less than an empty one; of two empty wrappers neither is less or greater than the
  other. \<open>nullptr <= x\<close> and \<open>x >= nullptr\<close> are always true, \<open>x < nullptr\<close> and
  \<open>nullptr > x\<close> never, and a wrapper that holds a value is greater than \<open>nullptr\<close>; the
  three-way comparison with \<open>nullptr\<close> gives the same answers. When both wrappers hold a
  value, \<open><\<close>, \<open>>\<close>, \<open><=\<close> and \<open>>=\<close> return what the pointee type's operator returns on the
  two pointees.
\<close>

theorem ordering_operators:
  "(\<not> has_value e \<and> has_value x \<longrightarrow>
      op_lt T_lt W e x = Returns True \<and> op_lt T_lt W x e = Returns False \<and>
      op_gt T_gt W x e = Returns True \<and> op_gt T_gt W e x = Returns False \<and>
      op_le T_le W e x = Returns True \<and> op_le T_le W x e = Returns False \<and>
      op_ge T_ge W x e = Returns True \<and> op_ge T_ge W e x = Returns False) \<and>
   (\<not> has_value e \<and> \<not> has_value e' \<longrightarrow>
      op_lt T_lt W e e' = Returns False \<and> op_gt T_gt W e e' = Returns False \<and>
      op_le T_le W e e' = Returns True \<and> op_ge T_ge W e e' = Returns True) \<and>
   null_le x \<and> ge_null x \<and> \<not> lt_null x \<and> \<not> null_gt x \<and>
   three_way_null x \<noteq> so_less \<and> reversed (three_way_null x) \<noteq> so_greater \<and>
   (has_value x \<longrightarrow>
      gt_null x \<and> null_lt x \<and> \<not> le_null x \<and> \<not> null_ge x \<and>
      three_way_null x = so_greater \<and> reversed (three_way_null x) = so_less) \<and>
   (\<not> has_value x \<longrightarrow>
      \<not> gt_null x \<and> \<not> null_lt x \<and> le_null x \<and> null_ge x \<and> three_way_null x = so_equal) \<and>
   (pointee W x = Returns a \<and> pointee W y = Returns b \<longrightarrow>
      op_lt T_lt W x y = Returns (T_lt a b) \<and> op_gt T_gt W x y = Returns (T_gt a b) \<and>
      op_le T_le W x y = Returns (T_le a b) \<and> op_ge T_ge W x y = Returns (T_ge a b))"
  using pointee_Returns_ptr [of W x a] pointee_Returns_ptr [of W y b]
  by (auto simp: order_defs short_circuit_defs null_defs has_value_def op_bool_def
      three_way_null_def bool_three_way_def reversed_def)

theorem ordering_operators_witness:
  "op_lt (<) two_ints (objs two_ints 3) (objs two_ints 0) = Returns True \<and>
   op_lt (<) two_ints (objs two_ints 0) (objs two_ints 3) = Returns False \<and>
   op_lt (<) two_ints (objs two_ints 3) (objs two_ints 4) = Returns False \<and>
   op_gt (>) two_ints (objs two_ints 3) (objs two_ints 4) = Returns False \<and>
   gt_null (objs two_ints 0) \<and> null_lt (objs two_ints 0) \<and> le_null (objs two_ints 3) \<and>
   op_lt (<) two_ints (objs two_ints 0) (objs two_ints 2) = Returns False \<and>
   op_gt (>) two_ints (objs two_ints 0) (objs two_ints 2) = Returns True \<and>
   op_le (\<le>) two_ints (objs two_ints 0) (objs two_ints 2) = Returns False \<and>
   op_ge (\<ge>) two_ints (objs two_ints 0) (objs two_ints 2) = Returns True"
  using
    ordering_operators [of "objs two_ints 3" "objs two_ints 0" "(<)" two_ints "(>)" "(\<le>)" "(\<ge>)"
      "objs two_ints 4" 42 "objs two_ints 2" 7]
    ordering_operators [of "objs two_ints 3" "objs two_ints 3" "(<)" two_ints "(>)" "(\<le>)" "(\<ge>)"
      "objs two_ints 4" 42 "objs two_ints 2" 7]
  by (simp add: pointee_two_ints has_value_def)

text \<open>
  C9. Compared with a raw value \<open>u\<close>, an empty wrapper is less than and less than or equal
  to \<open>u\<close>, not greater than, not greater than or equal to and not equal to \<open>u\<close>, and the
  forms with the raw value on the left agree (\<open>u > e\<close>, \<open>u >= e\<close>, \<open>u != e\<close> are true,
  \<open>u < e\<close>, \<open>u <= e\<close>, \<open>u == e\<close> are false). A wrapper that holds a value returns what the
  pointee type's operator returns on the pointee and \<open>u\<close>.
\<close>

theorem raw_value_comparisons:
  "(\<not> has_value e \<longrightarrow>
      op_lt_raw T_lt W e u = Returns True \<and> op_le_raw T_le W e u = Returns True \<and>
      op_gt_raw T_gt W e u = Returns False \<and> op_ge_raw T_ge W e u = Returns False \<and>
      op_eq_raw T_eq W e u = Returns False \<and> op_ne_raw T_ne W e u = Returns True \<and>
      raw_op_gt R_gt W u e = Returns True \<and> raw_op_ge R_ge W u e = Returns True \<and>
      raw_op_lt R_lt W u e = Returns False \<and> raw_op_le R_le W u e = Returns False \<and>
      raw_op_eq R_eq W u e = Returns False \<and> raw_op_ne R_ne W u e = Returns True) \<and>
   (pointee W x = Returns a \<longrightarrow>
      op_lt_raw T_lt W x u = Returns (T_lt a u) \<and> op_le_raw T_le W x u = Returns (T_le a u) \<and>
      op_gt_raw T_gt W x u = Returns (T_gt a u) \<and> op_ge_raw T_ge W x u = Returns (T_ge a u) \<and>
      op_eq_raw T_eq W x u = Returns (T_eq a u) \<and> op_ne_raw T_ne W x u = Returns (T_ne a u) \<and>
      raw_op_lt R_lt W u x = Returns (R_lt u a) \<and> raw_op_le R_le W u x = Returns (R_le u a) \<and>
      raw_op_gt R_gt W u x = Returns (R_gt u a) \<and> raw_op_ge R_ge W u x = Returns (R_ge u a) \<and>
      raw_op_eq R_eq W u x = Returns (R_eq u a) \<and> raw_op_ne R_ne W u x = Returns (R_ne u a))"
  using pointee_Returns_ptr [of W x a]
  by (auto simp: raw_defs short_circuit_defs has_value_def op_bool_def)

theorem raw_value_comparisons_witness:
  "op_lt_raw (<) two_ints (objs two_ints 3) (5::int) = Returns True \<and>
   op_eq_raw (=) two_ints (objs two_ints 3) (5::int) = Returns False \<and>
   raw_op_gt (>) two_ints (5::int) (objs two_ints 3) = Returns True \<and>
   op_lt_raw (<) two_ints (objs two_ints 0) (5::int) = Returns False \<and>
   op_ge_raw (\<ge>) two_ints (objs two_ints 0) (5::int) = Returns True \<and>
   raw_op_lt (<) two_ints (5::int) (objs two_ints 0) = Returns True \<and>
   raw_op_eq (=) two_ints (42::int) (objs two_ints 0) = Returns True"
  using
    raw_value_comparisons [of "objs two_ints 3" "(<)" two_ints 5 "(\<le>)" "(>)" "(\<ge>)" "(=)" "(\<noteq>)"
      "(>)" "(\<ge>)" "(<)" "(\<le>)" "(=)" "(\<noteq>)" "objs two_ints 0" 42]
    raw_value_comparisons [of "objs two_ints 3" "(<)" two_ints 42 "(\<le>)" "(>)" "(\<ge>)" "(=)" "(\<noteq>)"
      "(>)" "(\<ge>)" "(<)" "(\<le>)" "(=)" "(\<noteq>)" "objs two_ints 0" 42]
  by (simp add: pointee_two_ints has_value_def)

section \<open>Copy assignment\<close>

text \<open>
  C1. Copy assignment \<open>t = s\<close>, for a target whose pointee is alive. When the copy policy
  throws on the pointee of \<open>s\<close>, the exception leaves the assignment and the whole state,
  \<open>t\<close> with its pointee and policies included, is as before. When the guarded copy has
  been made (or \<open>s\<close> is empty) and the copy assignment of the copier or of the deleter
  throws, the exception leaves the assignment, \<open>t\<close> is empty and the guard has released
  the copy. When nothing throws the assignment returns, \<open>t\<close> is empty exactly when \<open>s\<close>
  is, the pointee of \<open>t\<close> is the value the copy policy produced from the pointee of
  \<open>s\<close>, the policies of \<open>t\<close> are what the policy assignments left, and a source that is
  another wrapper and does not share its pointer with \<open>t\<close> is unchanged, pointee included.
\<close>

theorem copy_assignment_exception_safety:
  assumes t: "alive W (objs W t)"
  shows
    "(pointee W (objs W s) = Returns v \<and> call_copier P (get_c (objs W s)) v = Inl e \<longrightarrow>
        copy_assign P t s W = (Throws e, W)) \<and>
     ((ptr (objs W s) = None \<or>
       pointee W (objs W s) = Returns v \<and> call_copier P (get_c (objs W s)) v = Inr v') \<and>
      (fst (copy_assign_c P (get_c (objs W t)) (get_c (objs W s))) = Some e \<or>
       fst (copy_assign_c P (get_c (objs W t)) (get_c (objs W s))) = None \<and>
       fst (copy_assign_d P (get_d (objs W t)) (get_d (objs W s))) = Some e) \<longrightarrow>
        fst (copy_assign P t s W) = Throws e \<and>
        \<not> has_value (objs (snd (copy_assign P t s W)) t) \<and>
        lookup (snd (copy_assign P t s W)) (length (cells W)) = None \<and>
        length (cells (snd (copy_assign P t s W))) =
          (if has_value (objs W s) then Suc (length (cells W)) else length (cells W))) \<and>
     ((ptr (objs W s) = None \<or>
       pointee W (objs W s) = Returns v \<and> call_copier P (get_c (objs W s)) v = Inr v') \<and>
      fst (copy_assign_c P (get_c (objs W t)) (get_c (objs W s))) = None \<and>
      fst (copy_assign_d P (get_d (objs W t)) (get_d (objs W s))) = None \<longrightarrow>
        fst (copy_assign P t s W) = Returns () \<and>
        has_value (objs (snd (copy_assign P t s W)) t) = has_value (objs W s) \<and>
        (has_value (objs W s) \<longrightarrow>
           pointee (snd (copy_assign P t s W)) (objs (snd (copy_assign P t s W)) t) = Returns v') \<and>
        get_c (objs (snd (copy_assign P t s W)) t) =
          snd (copy_assign_c P (get_c (objs W t)) (get_c (objs W s))) \<and>
        get_d (objs (snd (copy_assign P t s W)) t) =
          snd (copy_assign_d P (get_d (objs W t)) (get_d (objs W s))) \<and>
        (t \<noteq> s \<and> (ptr (objs W t) = None \<or> ptr (objs W t) \<noteq> ptr (objs W s)) \<longrightarrow>
           objs (snd (copy_assign P t s W)) s = objs W s \<and>
           pointee (snd (copy_assign P t s W)) (objs W s) = pointee W (objs W s)))"
    (is "?A \<and> ?B \<and> ?C")
proof -
  obtain ec c where c: "copy_assign_c P (get_c (objs W t)) (get_c (objs W s)) = (ec, c)"
    by (cases "copy_assign_c P (get_c (objs W t)) (get_c (objs W s))")
  obtain ed d where d: "copy_assign_d P (get_d (objs W t)) (get_d (objs W s)) = (ed, d)"
    by (cases "copy_assign_d P (get_d (objs W t)) (get_d (objs W s))")
  have A: ?A by (simp add: copy_assign_copier_throws)
  have BC: "?B \<and> ?C" if se: "ptr (objs W s) = None"
    using t
  proof (cases rule: alive_cases)
    case empty
    with se c d show ?thesis
      by (auto simp: step_defs make_raw_copy_def has_value_def pointee_Some pointee_def
          star_def read_through_def)
  next
    case (holds p u)
    with se c d show ?thesis
      by (auto simp: step_defs make_raw_copy_def has_value_def pointee_Some pointee_def
          star_def read_through_def)
  qed
  have BC': "?B \<and> ?C"
    if sv: "pointee W (objs W s) = Returns v" "call_copier P (get_c (objs W s)) v = Inr v'"
  proof -
    from sv obtain q where q: "ptr (objs W s) = Some q" "q < length (cells W)"
        "cells W ! q = Some v"
      by (auto simp: pointee_Some dest: lookup_SomeD)
    from t show ?thesis
    proof (cases rule: alive_cases)
      case empty
      with sv q c d show ?thesis
        by (auto simp: step_defs make_raw_copy_def has_value_def nth_append pointee_def
          star_def read_through_def read_ref_def)
    next
      case (holds p u)
      with sv q c d show ?thesis
        by (auto simp: step_defs make_raw_copy_def has_value_def nth_append pointee_def
          star_def read_through_def read_ref_def nth_list_update)
    qed
  qed
  from A BC BC' show ?thesis by blast
qed

theorem copy_assignment_exception_safety_witness:
  "copy_assign fussy_policies 0 2 fussy_world = (Throws (policy_failure 0), fussy_world) \<and>
   fst (copy_assign fussy_policies 0 3 fussy_world) = Throws (policy_failure 2) \<and>
   \<not> has_value (objs (snd (copy_assign fussy_policies 0 3 fussy_world)) 0) \<and>
   fst (copy_assign fussy_policies 0 4 fussy_world) = Throws (policy_failure 3) \<and>
   \<not> has_value (objs (snd (copy_assign fussy_policies 0 4 fussy_world)) 0) \<and>
   fst (copy_assign int_policies 0 2 two_ints) = Returns () \<and>
   pointee (snd (copy_assign int_policies 0 2 two_ints))
     (objs (snd (copy_assign int_policies 0 2 two_ints)) 0) = Returns 7 \<and>
   pointee (snd (copy_assign int_policies 0 2 two_ints)) (objs two_ints 2) = Returns 7 \<and>
   fst (copy_assign int_policies 0 3 two_ints) = Returns () \<and>
   \<not> has_value (objs (snd (copy_assign int_policies 0 3 two_ints)) 0)"
  using
    copy_assignment_exception_safety [of fussy_world 0 2 7 fussy_policies "policy_failure 0" 7]
    copy_assignment_exception_safety [of fussy_world 0 3 9 fussy_policies "policy_failure 2" 9]
    copy_assignment_exception_safety [of fussy_world 0 4 5 fussy_policies "policy_failure 3" 5]
    copy_assignment_exception_safety [of two_ints 0 2 7 int_policies "policy_failure 0" 7]
    copy_assignment_exception_safety [of two_ints 0 3 7 int_policies "policy_failure 0" 7]
  by (simp add: fussy_world_facts fussy_policies_facts int_policies_facts pointee_two_ints
      has_value_def)

section \<open>Copy construction\<close>

text \<open>
  C2. Copy construction of \<open>b\<close> from another wrapper \<open>a\<close>, with policies whose copy
  constructors return. When \<open>a\<close> holds the value \<open>v\<close> and its copy policy produces \<open>v'\<close>
  from it, the constructor returns and \<open>b\<close> is not empty, its policies are the copies of
  the policies of \<open>a\<close>, and its pointee is \<open>v'\<close>, so \<open>*b\<close> and \<open>*a\<close> are the same value when
  the copy policy returns an equal value. The pointee of \<open>b\<close> is at an address that was
  not in use before, different from the pointer of \<open>a\<close>; \<open>a\<close> and its pointee are
  unchanged, and writing \<open>u\<close> through \<open>*b\<close> changes the pointee of \<open>b\<close> and leaves the
  pointee of \<open>a\<close> as it was. When \<open>a\<close> is empty \<open>b\<close> is empty and nothing is allocated.
\<close>

theorem copy_construction:
  assumes ne: "b \<noteq> a"
    and c: "copy_construct_c P (get_c (objs W a)) = Inr c"
    and d: "copy_construct_d P (get_d (objs W a)) = Inr d"
  shows
    "(pointee W (objs W a) = Returns v \<and> call_copier P (get_c (objs W a)) v = Inr v' \<longrightarrow>
        fst (copy_ctor P b a W) = Returns () \<and>
        has_value (objs (snd (copy_ctor P b a W)) b) \<and>
        get_c (objs (snd (copy_ctor P b a W)) b) = c \<and>
        get_d (objs (snd (copy_ctor P b a W)) b) = d \<and>
        pointee (snd (copy_ctor P b a W)) (objs (snd (copy_ctor P b a W)) b) = Returns v' \<and>
        (v' = v \<longrightarrow>
           pointee (snd (copy_ctor P b a W)) (objs (snd (copy_ctor P b a W)) b) =
           pointee (snd (copy_ctor P b a W)) (objs (snd (copy_ctor P b a W)) a)) \<and>
        star (objs (snd (copy_ctor P b a W)) b) = Returns (length (cells W)) \<and>
        lookup W (length (cells W)) = None \<and>
        ptr (objs (snd (copy_ctor P b a W)) b) \<noteq> ptr (objs W a) \<and>
        objs (snd (copy_ctor P b a W)) a = objs W a \<and>
        pointee (snd (copy_ctor P b a W)) (objs W a) = Returns v \<and>
        del_log (snd (copy_ctor P b a W)) = del_log W \<and>
        fst (write_ref (length (cells W)) u (snd (copy_ctor P b a W))) = Returns () \<and>
        pointee (snd (write_ref (length (cells W)) u (snd (copy_ctor P b a W))))
          (objs (snd (copy_ctor P b a W)) b) = Returns u \<and>
        pointee (snd (write_ref (length (cells W)) u (snd (copy_ctor P b a W))))
          (objs W a) = Returns v) \<and>
     (ptr (objs W a) = None \<longrightarrow>
        fst (copy_ctor P b a W) = Returns () \<and>
        \<not> has_value (objs (snd (copy_ctor P b a W)) b) \<and>
        get_c (objs (snd (copy_ctor P b a W)) b) = c \<and>
        get_d (objs (snd (copy_ctor P b a W)) b) = d \<and>
        objs (snd (copy_ctor P b a W)) a = objs W a \<and>
        cells (snd (copy_ctor P b a W)) = cells W \<and>
        del_log (snd (copy_ctor P b a W)) = del_log W)"
    (is "?V \<and> ?E")
proof -
  have E: ?E
    using ne c d by (simp add: copy_ctor_def make_raw_copy_empty and_then_def has_value_def)
  have V: ?V
  proof
    assume sv: "pointee W (objs W a) = Returns v \<and> call_copier P (get_c (objs W a)) v = Inr v'"
    then obtain q where q: "ptr (objs W a) = Some q" "q < length (cells W)"
        "cells W ! q = Some v"
      by (auto simp: pointee_Some dest: lookup_SomeD)
    have run: "copy_ctor P b a W =
        (Returns (),
         W\<lparr>cells := cells W @ [Some v'],
           objs := (objs W)(b := \<lparr>get_c = c, get_d = d, ptr = Some (length (cells W))\<rparr>)\<rparr>)"
      using sv c d by (simp add: copy_ctor_def make_raw_copy_returns and_then_def)
    show "fst (copy_ctor P b a W) = Returns () \<and>
        has_value (objs (snd (copy_ctor P b a W)) b) \<and>
        get_c (objs (snd (copy_ctor P b a W)) b) = c \<and>
        get_d (objs (snd (copy_ctor P b a W)) b) = d \<and>
        pointee (snd (copy_ctor P b a W)) (objs (snd (copy_ctor P b a W)) b) = Returns v' \<and>
        (v' = v \<longrightarrow>
           pointee (snd (copy_ctor P b a W)) (objs (snd (copy_ctor P b a W)) b) =
           pointee (snd (copy_ctor P b a W)) (objs (snd (copy_ctor P b a W)) a)) \<and>
        star (objs (snd (copy_ctor P b a W)) b) = Returns (length (cells W)) \<and>
        lookup W (length (cells W)) = None \<and>
        ptr (objs (snd (copy_ctor P b a W)) b) \<noteq> ptr (objs W a) \<and>
        objs (snd (copy_ctor P b a W)) a = objs W a \<and>
        pointee (snd (copy_ctor P b a W)) (objs W a) = Returns v \<and>
        del_log (snd (copy_ctor P b a W)) = del_log W \<and>
        fst (write_ref (length (cells W)) u (snd (copy_ctor P b a W))) = Returns () \<and>
        pointee (snd (write_ref (length (cells W)) u (snd (copy_ctor P b a W))))
          (objs (snd (copy_ctor P b a W)) b) = Returns u \<and>
        pointee (snd (write_ref (length (cells W)) u (snd (copy_ctor P b a W))))
          (objs W a) = Returns v"
      unfolding run using ne q
      by (simp add: has_value_def pointee_def star_def read_through_def read_ref_def
          lookup_def write_ref_def nth_append)
  qed
  from V E show ?thesis ..
qed

theorem copy_construction_witness:
  "fst (copy_ctor int_policies 5 0 two_ints) = Returns () \<and>
   has_value (objs (snd (copy_ctor int_policies 5 0 two_ints)) 5) \<and>
   pointee (snd (copy_ctor int_policies 5 0 two_ints))
     (objs (snd (copy_ctor int_policies 5 0 two_ints)) 5) = Returns 42 \<and>
   pointee (snd (write_ref 3 43 (snd (copy_ctor int_policies 5 0 two_ints))))
     (objs (snd (copy_ctor int_policies 5 0 two_ints)) 5) = Returns 43 \<and>
   pointee (snd (write_ref 3 43 (snd (copy_ctor int_policies 5 0 two_ints))))
     (objs two_ints 0) = Returns 42 \<and>
   \<not> has_value (objs (snd (copy_ctor int_policies 5 4 two_ints)) 5)"
  using copy_construction [of 5 0 int_policies two_ints "()" "()" 42 42 43]
    copy_construction [of 5 4 int_policies two_ints "()" "()" 42 42 43]
  by (simp add: int_policies_facts pointee_two_ints)

section \<open>Move construction, move assignment and self-assignment\<close>

text \<open>
  C5. Moving from \<open>a\<close> into another wrapper \<open>b\<close>. The move constructor returns; \<open>b\<close> has
  the pointer \<open>a\<close> had, and its policies are what the move constructors of \<open>C\<close> and \<open>D\<close>
  make of the policies of \<open>a\<close>, so \<open>b\<close> is exactly what \<open>a\<close> was when those moves hand
  the state over unchanged; \<open>a\<close> is empty and its policies are what the moves left in
  them; neither the free store nor the record of deleter calls has changed. Move
  assignment never throws; when the pointee of \<open>b\<close> is alive it returns, \<open>b\<close> has the
  pointer \<open>a\<close> had and the policies that the move assignments of \<open>C\<close> and \<open>D\<close> make of
  the policies of \<open>a\<close>, again exactly those of \<open>a\<close> when the moves hand the state over
  unchanged, \<open>a\<close> is empty, no cell has been allocated, and unless \<open>b\<close> shared its pointer
  with \<open>a\<close> the pointee that was moved is what it was.
\<close>

theorem move_transfers_ownership:
  assumes ne: "b \<noteq> a"
  shows
    "(fst (move_ctor P b a W) = Returns () \<and>
     ptr (objs (snd (move_ctor P b a W)) b) = ptr (objs W a) \<and>
     get_c (objs (snd (move_ctor P b a W)) b) = fst (move_construct_c P (get_c (objs W a))) \<and>
     get_d (objs (snd (move_ctor P b a W)) b) = fst (move_construct_d P (get_d (objs W a))) \<and>
     (fst (move_construct_c P (get_c (objs W a))) = get_c (objs W a) \<and>
      fst (move_construct_d P (get_d (objs W a))) = get_d (objs W a) \<longrightarrow>
        objs (snd (move_ctor P b a W)) b = objs W a) \<and>
     \<not> has_value (objs (snd (move_ctor P b a W)) a) \<and>
     get_c (objs (snd (move_ctor P b a W)) a) = snd (move_construct_c P (get_c (objs W a))) \<and>
     get_d (objs (snd (move_ctor P b a W)) a) = snd (move_construct_d P (get_d (objs W a))) \<and>
     cells (snd (move_ctor P b a W)) = cells W \<and>
     del_log (snd (move_ctor P b a W)) = del_log W) \<and>
     (\<forall>e. fst (move_assign P b a W) \<noteq> Throws e) \<and>
     (alive W (objs W b) \<longrightarrow>
        fst (move_assign P b a W) = Returns () \<and>
        ptr (objs (snd (move_assign P b a W)) b) = ptr (objs W a) \<and>
        get_c (objs (snd (move_assign P b a W)) b) =
          fst (move_assign_c P (get_c (objs W b)) (get_c (objs W a))) \<and>
        get_d (objs (snd (move_assign P b a W)) b) =
          fst (move_assign_d P (get_d (objs W b)) (get_d (objs W a))) \<and>
        (fst (move_assign_c P (get_c (objs W b)) (get_c (objs W a))) = get_c (objs W a) \<and>
         fst (move_assign_d P (get_d (objs W b)) (get_d (objs W a))) = get_d (objs W a) \<longrightarrow>
           objs (snd (move_assign P b a W)) b = objs W a) \<and>
        \<not> has_value (objs (snd (move_assign P b a W)) a) \<and>
        get_c (objs (snd (move_assign P b a W)) a) =
          snd (move_assign_c P (get_c (objs W b)) (get_c (objs W a))) \<and>
        get_d (objs (snd (move_assign P b a W)) a) =
          snd (move_assign_d P (get_d (objs W b)) (get_d (objs W a))) \<and>
        length (cells (snd (move_assign P b a W))) = length (cells W) \<and>
        (ptr (objs W b) = None \<or> ptr (objs W b) \<noteq> ptr (objs W a) \<longrightarrow>
           pointee (snd (move_assign P b a W)) (objs W a) = pointee W (objs W a)))"
    (is "?ctor \<and> ?nothrow \<and> (?al \<longrightarrow> ?assign)")
proof -
  have ctor: ?ctor
    using ne
    by (simp add: move_ctor_def set_ptr_def set_c_def set_d_def has_value_def Let_def
        split_beta)
  have assign: ?assign if ?al
    using that
  proof (cases rule: alive_cases)
    case empty
    with ne show ?thesis
      by (cases "ptr (objs W a)")
        (simp_all add: move_assign_def split_beta reset_empty and_then_def set_ptr_def
          set_c_def set_d_def has_value_def Let_def pointee_def star_def read_through_def
          read_ref_def lookup_def)
  next
    case (holds p u)
    then have "lookup W p = Some u" by (simp add: lookup_def)
    with holds ne show ?thesis
      by (cases "ptr (objs W a)")
        (auto simp: move_assign_def split_beta reset_alive and_then_def set_ptr_def
          set_c_def set_d_def has_value_def Let_def pointee_def star_def read_through_def
          read_ref_def lookup_def nth_list_update)
  qed
  from ctor assign move_assign_never_throws show ?thesis by blast
qed

theorem move_transfers_ownership_witness:
  "fst (move_ctor int_policies 5 0 two_ints) = Returns () \<and>
   objs (snd (move_ctor int_policies 5 0 two_ints)) 5 = objs two_ints 0 \<and>
   ptr (objs (snd (move_ctor int_policies 5 0 two_ints)) 5) = Some 0 \<and>
   \<not> has_value (objs (snd (move_ctor int_policies 5 0 two_ints)) 0) \<and>
   fst (move_assign int_policies 2 0 two_ints) = Returns () \<and>
   objs (snd (move_assign int_policies 2 0 two_ints)) 2 = objs two_ints 0 \<and>
   ptr (objs (snd (move_assign int_policies 2 0 two_ints)) 2) = Some 0 \<and>
   \<not> has_value (objs (snd (move_assign int_policies 2 0 two_ints)) 0) \<and>
   pointee (snd (move_assign int_policies 2 0 two_ints)) (objs two_ints 0) = Returns 42 \<and>
   length (cells (snd (move_assign int_policies 2 0 two_ints))) = 3 \<and>
   get_c (objs (snd (move_ctor counting_policies 5 0 fussy_world)) 5) = 2 \<and>
   get_c (objs (snd (move_assign counting_policies 5 0 fussy_world)) 5) = 2 \<and>
   ptr (objs (snd (move_assign counting_policies 5 0 fussy_world)) 5) = Some 0"
  using move_transfers_ownership [of 5 0 int_policies two_ints]
    move_transfers_ownership [of 2 0 int_policies two_ints]
    move_transfers_ownership [of 5 0 counting_policies fussy_world]
  by (simp add: pointee_two_ints int_policies_facts counting_policies_facts fussy_world_facts)

text \<open>
  With policies that count their moves the copier of the source is in state 1 and the
  copier of the wrapper moved into is in state 2, after the move constructor and after
  move assignment alike: the target does not hold exactly the policies the source held.
\<close>

theorem move_transfers_ownership_counterexample:
  "get_c (objs fussy_world 0) = 1 \<and>
   get_c (objs (snd (move_ctor counting_policies 5 0 fussy_world)) 5) = 2 \<and>
   get_c (objs (snd (move_assign counting_policies 5 0 fussy_world)) 5) = 2 \<and>
   objs (snd (move_ctor counting_policies 5 0 fussy_world)) 5 \<noteq> objs fussy_world 0 \<and>
   objs (snd (move_assign counting_policies 5 0 fussy_world)) 5 \<noteq> objs fussy_world 0"
  by (simp add: move_ctor_def move_assign_def split_beta reset_def and_then_def set_ptr_def
      set_c_def set_d_def Let_def counting_policies_facts fussy_world_def)

text \<open>
  C6. Self-assignment of a wrapper whose pointee is alive. The move form returns and
  changes nothing. In the copy form, a copy policy that throws leaves the whole state as
  it was. When the copy policy returns a value equal to the pointee and neither policy's
  assignment to itself throws, the copy form returns; the wrapper is empty exactly if it
  was, \<open>*a\<close> is what it was, and the pointee is alive; an empty wrapper causes no deleter
  call and no allocation, and a wrapper that held the pointer \<open>p\<close> causes exactly one
  deleter call, on \<open>p\<close>, after which the storage at \<open>p\<close> is released and the wrapper holds
  a newly allocated address. When the copy has been made and a policy's assignment to
  itself throws, the exception leaves the assignment and the wrapper is empty; a wrapper
  that held \<open>p\<close> has caused two deleter calls, one on \<open>p\<close> and one on the copy. On every
  one of these paths the old pointer is passed to a deleter at most once and no step is
  undefined: the pointee is read before it is released and not after.
\<close>

theorem self_assignment:
  assumes al: "alive W (objs W a)"
  shows
    "move_assign P a a W = (Returns (), W) \<and>
     (pointee W (objs W a) = Returns v \<and> call_copier P (get_c (objs W a)) v = Inl e \<longrightarrow>
        copy_assign P a a W = (Throws e, W)) \<and>
     ((ptr (objs W a) = None \<or>
       pointee W (objs W a) = Returns v \<and> call_copier P (get_c (objs W a)) v = Inr v) \<and>
      fst (copy_assign_c P (get_c (objs W a)) (get_c (objs W a))) = None \<and>
      fst (copy_assign_d P (get_d (objs W a)) (get_d (objs W a))) = None \<longrightarrow>
        fst (copy_assign P a a W) = Returns () \<and>
        has_value (objs (snd (copy_assign P a a W)) a) = has_value (objs W a) \<and>
        pointee (snd (copy_assign P a a W)) (objs (snd (copy_assign P a a W)) a) =
          pointee W (objs W a) \<and>
        alive (snd (copy_assign P a a W)) (objs (snd (copy_assign P a a W)) a) \<and>
        (case ptr (objs W a) of
           None \<Rightarrow>
             calls_during W (snd (copy_assign P a a W)) = [] \<and>
             cells (snd (copy_assign P a a W)) = cells W
         | Some p \<Rightarrow>
             map handle (calls_during W (snd (copy_assign P a a W))) = [Some p] \<and>
             ptr (objs (snd (copy_assign P a a W)) a) = Some (length (cells W)) \<and>
             released (snd (copy_assign P a a W)) p)) \<and>
     ((ptr (objs W a) = None \<or>
       pointee W (objs W a) = Returns v \<and> call_copier P (get_c (objs W a)) v = Inr v') \<and>
      (fst (copy_assign_c P (get_c (objs W a)) (get_c (objs W a))) = Some e \<or>
       fst (copy_assign_c P (get_c (objs W a)) (get_c (objs W a))) = None \<and>
       fst (copy_assign_d P (get_d (objs W a)) (get_d (objs W a))) = Some e) \<longrightarrow>
        fst (copy_assign P a a W) = Throws e \<and>
        \<not> has_value (objs (snd (copy_assign P a a W)) a) \<and>
        (case ptr (objs W a) of
           None \<Rightarrow>
             calls_during W (snd (copy_assign P a a W)) = [] \<and>
             cells (snd (copy_assign P a a W)) = cells W
         | Some p \<Rightarrow>
             map handle (calls_during W (snd (copy_assign P a a W))) =
               [Some p, Some (length (cells W))] \<and>
             released (snd (copy_assign P a a W)) p \<and>
             released (snd (copy_assign P a a W)) (length (cells W))))"
    (is "?M \<and> ?T \<and> (?pre \<and> ?ok \<longrightarrow> ?R) \<and> (?pre' \<and> ?fail \<longrightarrow> ?F)")
proof -
  obtain ec c where c: "copy_assign_c P (get_c (objs W a)) (get_c (objs W a)) = (ec, c)"
    by (cases "copy_assign_c P (get_c (objs W a)) (get_c (objs W a))")
  obtain ed d where d: "copy_assign_d P (get_d (objs W a)) (get_d (objs W a)) = (ed, d)"
    by (cases "copy_assign_d P (get_d (objs W a)) (get_d (objs W a))")
  have M: ?M by (simp add: move_assign_def)
  have T: ?T by (simp add: copy_assign_copier_throws)
  have R: ?R if pre: ?pre and ok: ?ok
  proof -
    from ok c d have ok': "ec = None" "ed = None" by simp_all
    from al show ?thesis
    proof (cases rule: alive_cases)
      case empty
      with c d ok' show ?thesis
        by (simp add: step_defs make_raw_copy_def has_value_def pointee_def star_def
            read_through_def alive_def calls_during_def)
    next
      case (holds p u)
      then have "pointee W (objs W a) = Returns u"
        by (simp add: pointee_Some lookup_def)
      with pre holds have "call_copier P (get_c (objs W a)) u = Inr u" by auto
      with holds c d ok' show ?thesis
        by (simp add: step_defs make_raw_copy_def has_value_def pointee_def star_def
            read_through_def read_ref_def alive_def calls_during_def released_def nth_append
            nth_list_update)
    qed
  qed
  have F: ?F if pre: ?pre' and fail: ?fail
  proof -
    from fail c d have fail': "ec = Some e \<or> ec = None \<and> ed = Some e" by simp
    from al show ?thesis
    proof (cases rule: alive_cases)
      case empty
      with c d fail' show ?thesis
        by (auto simp: step_defs make_raw_copy_def has_value_def calls_during_def)
    next
      case (holds p u)
      then have "pointee W (objs W a) = Returns u"
        by (simp add: pointee_Some lookup_def)
      with pre holds have "call_copier P (get_c (objs W a)) u = Inr v'" by auto
      with holds c d fail' show ?thesis
        by (auto simp: step_defs make_raw_copy_def has_value_def calls_during_def
            released_def nth_append nth_list_update)
    qed
  qed
  from M T R F show ?thesis by blast
qed

theorem self_assignment_witness:
  "move_assign int_policies 0 0 two_ints = (Returns (), two_ints) \<and>
   fst (copy_assign int_policies 0 0 two_ints) = Returns () \<and>
   has_value (objs (snd (copy_assign int_policies 0 0 two_ints)) 0) \<and>
   pointee (snd (copy_assign int_policies 0 0 two_ints))
     (objs (snd (copy_assign int_policies 0 0 two_ints)) 0) = Returns 42 \<and>
   map handle (calls_during two_ints (snd (copy_assign int_policies 0 0 two_ints))) = [Some 0] \<and>
   fst (copy_assign int_policies 3 3 two_ints) = Returns () \<and>
   \<not> has_value (objs (snd (copy_assign int_policies 3 3 two_ints)) 3) \<and>
   copy_assign fussy_policies 2 2 fussy_world = (Throws (policy_failure 0), fussy_world) \<and>
   fst (copy_assign fussy_policies 3 3 fussy_world) = Throws (policy_failure 2) \<and>
   \<not> has_value (objs (snd (copy_assign fussy_policies 3 3 fussy_world)) 3) \<and>
   map handle (calls_during fussy_world (snd (copy_assign fussy_policies 3 3 fussy_world))) =
     [Some 3, Some 5] \<and>
   fst (copy_assign fussy_policies 4 4 fussy_world) = Throws (policy_failure 3)"
  using self_assignment [of two_ints 0 int_policies 42 "policy_failure 0" 42]
    self_assignment [of two_ints 3 int_policies 42 "policy_failure 0" 42]
    self_assignment [of fussy_world 2 fussy_policies 7 "policy_failure 0" 7]
    self_assignment [of fussy_world 3 fussy_policies 9 "policy_failure 2" 9]
    self_assignment [of fussy_world 4 fussy_policies 5 "policy_failure 3" 5]
  by (simp add: int_policies_facts pointee_two_ints has_value_def fussy_world_facts
      fussy_policies_facts)

text \<open>
  Wrapper 3 of \<open>fussy_world\<close> holds a value, its pointee is alive, and the copy
  assignment of its copier throws: assigning the wrapper to itself ends with that
  exception and leaves the wrapper empty.
\<close>

theorem self_assignment_counterexample:
  "alive fussy_world (objs fussy_world 3) \<and>
   has_value (objs fussy_world 3) \<and>
   fst (copy_assign fussy_policies 3 3 fussy_world) = Throws (policy_failure 2) \<and>
   \<not> has_value (objs (snd (copy_assign fussy_policies 3 3 fussy_world)) 3)"
  by (simp add: step_defs make_raw_copy_def has_value_def alive_def fussy_policies_facts
      fussy_world_def)

section \<open>Releasing the pointee\<close>

lemma releases_properly_refl: "log_ok W \<Longrightarrow> releases_properly t W W"
  by (simp add: releases_properly_def calls_during_def)

lemma log_ok_step:
  assumes ok: "log_ok W"
    and log: "del_log W' = del_log W @ new"
    and mono: "\<forall>p. released W p \<longrightarrow> released W' p"
    and dist: "distinct (map handle new)"
    and new: "\<forall>c \<in> set new. \<exists>p. handle c = Some p \<and> \<not> released W p \<and> released W' p"
  shows "log_ok W'"
proof -
  have old: "\<exists>p. handle c = Some p \<and> released W p" if "c \<in> set (del_log W)" for c
    using ok that by (auto simp: log_ok_def split: option.splits)
  have disj: "handle ` set (del_log W) \<inter> handle ` set new = {}"
  proof (rule ccontr)
    assume "handle ` set (del_log W) \<inter> handle ` set new \<noteq> {}"
    then obtain c c' where cc: "c \<in> set (del_log W)" "c' \<in> set new" "handle c = handle c'"
      by auto
    from old [OF cc(1)] obtain p where p: "handle c = Some p" "released W p" by auto
    from new cc(2) obtain p' where p': "handle c' = Some p'" "\<not> released W p'" by auto
    from p p' cc(3) show False by simp
  qed
  have d: "distinct (map handle (del_log W'))"
    using ok dist disj by (simp add: log log_ok_def)
  have r: "case handle c of None \<Rightarrow> False | Some p \<Rightarrow> released W' p"
    if "c \<in> set (del_log W')" for c
  proof -
    from that log have "c \<in> set (del_log W) \<or> c \<in> set new" by simp
    then show ?thesis
    proof
      assume "c \<in> set (del_log W)"
      from old [OF this] mono show ?thesis by auto
    next
      assume "c \<in> set new"
      with new show ?thesis by auto
    qed
  qed
  from d r show ?thesis by (simp add: log_ok_def)
qed

lemma releases_properly_step:
  assumes ok: "log_ok W"
    and log: "del_log W' = del_log W @ new"
    and mono: "\<forall>p. released W p \<longrightarrow> released W' p"
    and dist: "distinct (map handle new)"
    and new: "\<forall>c \<in> set new. \<exists>p. handle c = Some p \<and> \<not> released W p \<and> released W' p"
    and seen: "\<forall>c \<in> set new. ptr (seen c t) = None"
  shows "releases_properly t W W'"
proof -
  have "log_ok W'" using log_ok_step [OF ok log mono dist new] .
  moreover have "\<forall>c \<in> set new. handle c \<noteq> None" using new by auto
  ultimately show ?thesis
    using seen by (simp add: releases_properly_def calls_during_def log)
qed

lemma releases_properlyI:
  assumes ok: "log_ok W"
    and keep: "take (length (del_log W)) (del_log W') = del_log W"
    and mono: "\<forall>p. released W p \<longrightarrow> released W' p"
    and dist: "distinct (map handle (calls_during W W'))"
    and new: "\<forall>c \<in> set (calls_during W W').
                (case handle c of None \<Rightarrow> False
                 | Some p \<Rightarrow> \<not> released W p \<and> released W' p) \<and>
                ptr (seen c t) = None"
  shows "releases_properly t W W'"
proof -
  have "del_log W' = take (length (del_log W)) (del_log W') @ calls_during W W'"
    by (simp add: calls_during_def)
  with keep have log: "del_log W' = del_log W @ calls_during W W'" by simp
  show ?thesis
    using new
    by (intro releases_properly_step [OF ok log mono dist]) (auto split: option.splits)
qed

lemma dtor_releases_properly:
  assumes ok: "log_ok W" and al: "alive W (objs W t)"
  shows "releases_properly t W (snd (dtor t W))"
  using al
proof (cases rule: alive_cases)
  case empty
  then show ?thesis using ok by (simp add: dtor_def reset_empty releases_properly_refl)
next
  case (holds p u)
  then have lk: "lookup W p = Some u" by (simp add: lookup_def)
  from holds show ?thesis
    unfolding dtor_def reset_alive [OF holds(1) lk] snd_conv
    by (intro releases_properlyI [OF ok])
      (auto simp: released_def calls_during_def nth_list_update)
qed

lemma move_assign_releases_properly:
  assumes ok: "log_ok W" and al: "alive W (objs W t)"
  shows "releases_properly t W (snd (move_assign P t s W))"
proof (cases "t = s")
  case True
  then show ?thesis using ok by (simp add: move_assign_def releases_properly_refl)
next
  case False
  from al show ?thesis
  proof (cases rule: alive_cases)
    case empty
    with False show ?thesis
      by (intro releases_properlyI [OF ok])
        (auto simp: move_assign_def split_beta reset_empty and_then_def set_ptr_def set_c_def set_d_def
          Let_def released_def calls_during_def)
  next
    case (holds p u)
    then have lk: "lookup W p = Some u" by (simp add: lookup_def)
    from holds False show ?thesis
      by (intro releases_properlyI [OF ok])
        (auto simp: move_assign_def split_beta reset_alive [OF holds(1) lk] and_then_def set_ptr_def
          set_c_def set_d_def Let_def released_def calls_during_def nth_list_update)
  qed
qed

lemma copy_assign_releases_properly:
  assumes ok: "log_ok W" and al: "alive W (objs W t)"
  shows "releases_properly t W (snd (copy_assign P t s W))"
proof -
  obtain ec c where c: "copy_assign_c P (get_c (objs W t)) (get_c (objs W s)) = (ec, c)"
    by (cases "copy_assign_c P (get_c (objs W t)) (get_c (objs W s))")
  obtain ed d where d: "copy_assign_d P (get_d (objs W t)) (get_d (objs W s)) = (ed, d)"
    by (cases "copy_assign_d P (get_d (objs W t)) (get_d (objs W s))")
  consider (s_empty) "ptr (objs W s) = None"
    | (s_dangling) q where "ptr (objs W s) = Some q" "lookup W q = None"
    | (s_throws) q v e where "ptr (objs W s) = Some q" "lookup W q = Some v"
        "call_copier P (get_c (objs W s)) v = Inl e"
    | (s_copied) q v v' where "ptr (objs W s) = Some q" "lookup W q = Some v"
        "call_copier P (get_c (objs W s)) v = Inr v'"
    by (cases "ptr (objs W s)"; cases "lookup W (the (ptr (objs W s)))";
        cases "call_copier P (get_c (objs W s)) (the (lookup W (the (ptr (objs W s)))))") auto
  then show ?thesis
  proof cases
    case s_empty
    from al show ?thesis
    proof (cases rule: alive_cases)
      case empty
      with s_empty c d show ?thesis
        by (intro releases_properlyI [OF ok]; cases ec; cases ed)
          (auto simp: step_defs make_raw_copy_def released_def calls_during_def)
    next
      case (holds p u)
      with s_empty c d show ?thesis
        by (intro releases_properlyI [OF ok]; cases ec; cases ed)
          (auto simp: step_defs make_raw_copy_def released_def calls_during_def
            nth_list_update)
    qed
  next
    case s_dangling
    then show ?thesis using ok
      by (simp add: copy_assign_def make_guarded_copy_def and_then_def make_raw_copy_def
          releases_properly_refl)
  next
    case s_throws
    then show ?thesis using ok
      by (simp add: copy_assign_def make_guarded_copy_def and_then_def make_raw_copy_def
          releases_properly_refl)
  next
    case s_copied
    then have q: "q < length (cells W)" "cells W ! q = Some v"
      by (auto dest: lookup_SomeD)
    from al show ?thesis
    proof (cases rule: alive_cases)
      case empty
      with s_copied q c d show ?thesis
        by (intro releases_properlyI [OF ok]; cases ec; cases ed)
          (auto simp: step_defs make_raw_copy_def released_def calls_during_def nth_append)
    next
      case (holds p u)
      with s_copied q c d show ?thesis
        by (intro releases_properlyI [OF ok]; cases ec; cases ed)
          (auto simp: step_defs make_raw_copy_def released_def calls_during_def nth_append
            nth_list_update)
    qed
  qed
qed

lemma sample_logs: "log_ok two_ints" "log_ok fussy_world"
  by (simp_all add: log_ok_def two_ints_def fussy_world_def released_def)

text \<open>
  C10. Destruction, copy assignment and move assignment of a wrapper \<open>t\<close> whose pointee is
  alive, from a state whose record of deleter calls is sound. Whatever path the operation
  takes, every deleter call it makes is passed a non-null pointer and finds \<open>t\<close> empty, and
  the record stays sound: no pointer has been passed to a deleter twice. When \<open>t\<close> holds
  the pointer \<open>p\<close>, the destructor makes exactly one call, with the deleter of \<open>t\<close>, on \<open>p\<close>,
  in a state where \<open>ptr_\<close> of \<open>t\<close> is already null and nothing else has changed; afterwards
  the storage at \<open>p\<close> is released, \<open>t\<close> is empty, and destroying again does nothing. Move
  assignment from another wrapper makes the same single call, and it is the first call
  of a copy assignment whose guarded copy has been made. An empty \<open>t\<close> causes no call in
  the destructor or in move assignment.
\<close>

theorem release_protocol:
  assumes ok: "log_ok W" and al: "alive W (objs W t)"
  shows
    "releases_properly t W (snd (dtor t W)) \<and>
     releases_properly t W (snd (copy_assign P t s W)) \<and>
     releases_properly t W (snd (move_assign P t s W)) \<and>
     (ptr (objs W t) = Some p \<longrightarrow>
        fst (dtor t W) = Returns () \<and>
        calls_during W (snd (dtor t W)) =
          [\<lparr>used_deleter = get_d (objs W t), handle = Some p,
            seen = (objs W)(t := (objs W t)\<lparr>ptr := None\<rparr>)\<rparr>] \<and>
        released (snd (dtor t W)) p \<and>
        \<not> has_value (objs (snd (dtor t W)) t) \<and>
        dtor t (snd (dtor t W)) = (Returns (), snd (dtor t W)) \<and>
        (t \<noteq> s \<longrightarrow>
           calls_during W (snd (move_assign P t s W)) =
             [\<lparr>used_deleter = get_d (objs W t), handle = Some p,
               seen = (objs W)(t := (objs W t)\<lparr>ptr := None\<rparr>)\<rparr>]) \<and>
        (ptr (objs W s) = None \<or>
         pointee W (objs W s) = Returns v \<and> call_copier P (get_c (objs W s)) v = Inr v' \<longrightarrow>
           take 1 (calls_during W (snd (copy_assign P t s W))) =
             [\<lparr>used_deleter = get_d (objs W t), handle = Some p,
               seen = (objs W)(t := (objs W t)\<lparr>ptr := None\<rparr>)\<rparr>])) \<and>
     (ptr (objs W t) = None \<longrightarrow>
        dtor t W = (Returns (), W) \<and>
        calls_during W (snd (move_assign P t s W)) = [])"
    (is "?D \<and> ?C \<and> ?M \<and> ?H \<and> ?E")
proof -
  obtain ec c where c: "copy_assign_c P (get_c (objs W t)) (get_c (objs W s)) = (ec, c)"
    by (cases "copy_assign_c P (get_c (objs W t)) (get_c (objs W s))")
  obtain ed d where d: "copy_assign_d P (get_d (objs W t)) (get_d (objs W s)) = (ed, d)"
    by (cases "copy_assign_d P (get_d (objs W t)) (get_d (objs W s))")
  have E: ?E
    by (auto simp: dtor_def move_assign_def split_beta reset_empty and_then_def set_ptr_def set_c_def
        set_d_def Let_def calls_during_def)
  have H: ?H
  proof
    assume p: "ptr (objs W t) = Some p"
    with al obtain u where u: "p < length (cells W)" "cells W ! p = Some u"
      by (auto simp: alive_def dest: lookup_SomeD)
    then have lk: "lookup W p = Some u" by (simp add: lookup_def)
    have d1: "fst (dtor t W) = Returns () \<and>
        calls_during W (snd (dtor t W)) =
          [\<lparr>used_deleter = get_d (objs W t), handle = Some p,
            seen = (objs W)(t := (objs W t)\<lparr>ptr := None\<rparr>)\<rparr>] \<and>
        released (snd (dtor t W)) p \<and>
        \<not> has_value (objs (snd (dtor t W)) t) \<and>
        dtor t (snd (dtor t W)) = (Returns (), snd (dtor t W))"
      using u
      by (simp add: dtor_def reset_alive [OF p lk] reset_empty calls_during_def released_def
          has_value_def)
    have m1: "calls_during W (snd (move_assign P t s W)) =
             [\<lparr>used_deleter = get_d (objs W t), handle = Some p,
               seen = (objs W)(t := (objs W t)\<lparr>ptr := None\<rparr>)\<rparr>]"
      if "t \<noteq> s"
      using that
      by (simp add: move_assign_def split_beta reset_alive [OF p lk] and_then_def set_ptr_def set_c_def
          set_d_def Let_def calls_during_def)
    have c1: "take 1 (calls_during W (snd (copy_assign P t s W))) =
             [\<lparr>used_deleter = get_d (objs W t), handle = Some p,
               seen = (objs W)(t := (objs W t)\<lparr>ptr := None\<rparr>)\<rparr>]"
      if "ptr (objs W s) = None"
      using that p u c d
      by (cases ec; cases ed; cases "s = t")
        (simp_all add: step_defs make_raw_copy_def calls_during_def)
    have c2: "take 1 (calls_during W (snd (copy_assign P t s W))) =
             [\<lparr>used_deleter = get_d (objs W t), handle = Some p,
               seen = (objs W)(t := (objs W t)\<lparr>ptr := None\<rparr>)\<rparr>]"
      if sv: "pointee W (objs W s) = Returns v \<and> call_copier P (get_c (objs W s)) v = Inr v'"
    proof -
      from sv obtain q where q: "ptr (objs W s) = Some q" "q < length (cells W)"
          "cells W ! q = Some v"
        by (auto simp: pointee_Some dest: lookup_SomeD)
      from sv q p u c d show ?thesis
        by (cases ec; cases ed; cases "s = t")
          (simp_all add: step_defs make_raw_copy_def calls_during_def nth_append
            nth_list_update)
    qed
    from d1 m1 c1 c2
    show "fst (dtor t W) = Returns () \<and>
        calls_during W (snd (dtor t W)) =
          [\<lparr>used_deleter = get_d (objs W t), handle = Some p,
            seen = (objs W)(t := (objs W t)\<lparr>ptr := None\<rparr>)\<rparr>] \<and>
        released (snd (dtor t W)) p \<and>
        \<not> has_value (objs (snd (dtor t W)) t) \<and>
        dtor t (snd (dtor t W)) = (Returns (), snd (dtor t W)) \<and>
        (t \<noteq> s \<longrightarrow>
           calls_during W (snd (move_assign P t s W)) =
             [\<lparr>used_deleter = get_d (objs W t), handle = Some p,
               seen = (objs W)(t := (objs W t)\<lparr>ptr := None\<rparr>)\<rparr>]) \<and>
        (ptr (objs W s) = None \<or>
         pointee W (objs W s) = Returns v \<and> call_copier P (get_c (objs W s)) v = Inr v' \<longrightarrow>
           take 1 (calls_during W (snd (copy_assign P t s W))) =
             [\<lparr>used_deleter = get_d (objs W t), handle = Some p,
               seen = (objs W)(t := (objs W t)\<lparr>ptr := None\<rparr>)\<rparr>])"
      by blast
  qed
  from dtor_releases_properly [OF ok al] copy_assign_releases_properly [OF ok al]
    move_assign_releases_properly [OF ok al] H E
  show ?thesis by blast
qed

theorem release_protocol_witness:
  "releases_properly 0 two_ints (snd (dtor 0 two_ints)) \<and>
   releases_properly 0 two_ints (snd (copy_assign int_policies 0 2 two_ints)) \<and>
   releases_properly 0 two_ints (snd (move_assign int_policies 0 2 two_ints)) \<and>
   map handle (calls_during two_ints (snd (dtor 0 two_ints))) = [Some 0] \<and>
   map handle (calls_during two_ints (snd (move_assign int_policies 0 2 two_ints))) = [Some 0] \<and>
   map handle (take 1 (calls_during two_ints (snd (copy_assign int_policies 0 2 two_ints)))) =
     [Some 0] \<and>
   dtor 0 (snd (dtor 0 two_ints)) = (Returns (), snd (dtor 0 two_ints)) \<and>
   releases_properly 0 fussy_world (snd (copy_assign fussy_policies 0 3 fussy_world)) \<and>
   dtor 5 fussy_world = (Returns (), fussy_world)"
  using release_protocol [of two_ints 0 int_policies 2 0 7 7]
    release_protocol [of fussy_world 0 fussy_policies 3 0 9 9]
    release_protocol [of fussy_world 5 fussy_policies 3 0 9 9]
  by (simp add: sample_logs pointee_two_ints fussy_world_facts int_policies_facts
      fussy_policies_facts)

end
